theory Spec2Isabelle
  imports Main "HOL-Library.Sublist"
begin

section \<open>Values shared by the variants\<close>

text \<open>
  The repository holds three variants of one task service: \<^verbatim>\<open>fastapi/main.py\<close> keeps the
  tasks in a module-level list of dicts (its definitions carry the prefix \<open>mem_\<close> here), and
  the two SQLAlchemy variants (\<^verbatim>\<open>APIWithTestCases/fastapiEx\<close> and
  \<^verbatim>\<open>FastAPI With Sqlalcehmy/Postgresql/app\<close>) share one router, whose functions keep their
  names; they differ in \<^verbatim>\<open>get_db\<close> only.

  An exception is a value: a handler returns \<open>exn + 'a\<close> together with the store it leaves.
\<close>

datatype exn =
    HTTPException nat string
  | RequestValidationError "string list"
  | SQLAlchemyError string
  | ValueError string

text \<open>The status the framework answers with when the exception leaves the handler.\<close>

fun status_of :: "exn \<Rightarrow> nat" where
  "status_of (HTTPException code detail) = code"
| "status_of (RequestValidationError fields) = 422"
| "status_of (SQLAlchemyError msg) = 500"
| "status_of (ValueError msg) = 500"

text \<open>
  What the client receives: a status code with a body (\<open>None\<close> is the empty body), or the
  status code of a failure with the exception it renders.
\<close>

datatype 'a reply = Reply nat "'a option" | Failure nat exn

text \<open>\<^verbatim>\<open>Response(status_code=...)\<close>: an explicit response object with empty content.\<close>

datatype response = Response nat

definition respond :: "nat \<Rightarrow> (exn + 'a) \<times> 's \<Rightarrow> 'a reply \<times> 's" where
  "respond code r =
     (case r of
        (Inl e, s) \<Rightarrow> (Failure (status_of e) e, s)
      | (Inr v, s) \<Rightarrow> (Reply code (Some v), s))"

definition respond_raw :: "(exn + response) \<times> 's \<Rightarrow> 'a reply \<times> 's" where
  "respond_raw r =
     (case r of
        (Inl e, s) \<Rightarrow> (Failure (status_of e) e, s)
      | (Inr (Response code), s) \<Rightarrow> (Reply code None, s))"

text \<open>
  A field of a JSON request body, after the body has been read with the field's type: the
  key is missing, is \<^verbatim>\<open>null\<close>, or carries a value. The coercions pydantic applies to values of
  another JSON type are outside the model. A string is the list of its UTF-8 bytes.
\<close>

datatype 'a field = Unset | Null | Given 'a

text \<open>\<^verbatim>\<open>x: T\<close> (required), \<^verbatim>\<open>x: T = d\<close> and \<^verbatim>\<open>x: Optional[T] = None\<close>; \<open>None\<close> on the left of
  the first two is a validation error.\<close>

fun required :: "'a field \<Rightarrow> 'a option" where
  "required (Given v) = Some v"
| "required Unset = None"
| "required Null = None"

fun with_default :: "'a \<Rightarrow> 'a field \<Rightarrow> 'a option" where
  "with_default d Unset = Some d"
| "with_default d (Given v) = Some v"
| "with_default d Null = None"

fun optional :: "'a field \<Rightarrow> 'a option" where
  "optional (Given v) = Some v"
| "optional Unset = None"
| "optional Null = None"

definition invalid :: "string \<Rightarrow> 'a option \<Rightarrow> string list" where
  "invalid key v = (case v of None \<Rightarrow> [key] | Some _ \<Rightarrow> [])"

text \<open>An integer inside an f-string: Python's \<^verbatim>\<open>str(int)\<close>.\<close>

function str_nat :: "nat \<Rightarrow> string" where
  "str_nat n =
     (if n < 10 then [''0123456789'' ! n]
      else str_nat (n div 10) @ [''0123456789'' ! (n mod 10)])"
  by pat_completeness auto
termination
  by (relation "measure (\<lambda>n. n)") auto

declare str_nat.simps [simp del]

definition str_int :: "int \<Rightarrow> string" where
  "str_int i = (if i < 0 then CHR ''-'' # str_nat (nat (- i)) else str_nat (nat i))"

section \<open>The in-memory variant (fastapi/main.py)\<close>

datatype pyval = VInt int | VStr string | VBool bool

type_synonym pydict = "string \<Rightarrow> pyval option"

text \<open>\<^verbatim>\<open>class Task(BaseModel)\<close>: \<^verbatim>\<open>name: str\<close>, \<^verbatim>\<open>task: str\<close>, \<^verbatim>\<open>completed: bool = False\<close>.\<close>

record mem_Task =
  mem_name :: string
  mem_task :: string
  mem_completed :: bool

record mem_body =
  mb_name :: "string field"
  mb_task :: "string field"
  mb_completed :: "bool field"

definition mem_Task_validate :: "mem_body \<Rightarrow> exn + mem_Task" where
  "mem_Task_validate b =
     (case (required (mb_name b), required (mb_task b), with_default False (mb_completed b)) of
        (Some n, Some t, Some c) \<Rightarrow> Inr \<lparr>mem_name = n, mem_task = t, mem_completed = c\<rparr>
      | (n, t, c) \<Rightarrow>
          Inl (RequestValidationError
                 (invalid ''name'' n @ invalid ''task'' t @ invalid ''completed'' c)))"

text \<open>\<^verbatim>\<open>Task.dict()\<close>.\<close>

definition mem_Task_dict :: "mem_Task \<Rightarrow> pydict" where
  "mem_Task_dict t =
     [''name'' \<mapsto> VStr (mem_name t), ''task'' \<mapsto> VStr (mem_task t),
      ''completed'' \<mapsto> VBool (mem_completed t)]"

text \<open>The module-level list, as the module sets it up.\<close>

definition my_tasks :: "pydict list" where
  "my_tasks =
     [[''id'' \<mapsto> VInt 1, ''name'' \<mapsto> VStr ''test1'', ''task'' \<mapsto> VStr ''test1''],
      [''id'' \<mapsto> VInt 2, ''name'' \<mapsto> VStr ''test2'', ''task'' \<mapsto> VStr ''test2'']]"

text \<open>
  \<^verbatim>\<open>find_post_index\<close>: the index of the first dict whose \<^verbatim>\<open>"id"\<close> equals \<open>id\<close>; falling out of
  the loop returns \<^verbatim>\<open>None\<close>. Every dict this module puts in the list has the key \<^verbatim>\<open>"id"\<close>.
\<close>

fun enumerate_find :: "int \<Rightarrow> nat \<Rightarrow> pydict list \<Rightarrow> nat option" where
  "enumerate_find i index [] = None"
| "enumerate_find i index (task # rest) =
     (if task ''id'' = Some (VInt i) then Some index else enumerate_find i (Suc index) rest)"

definition find_post_index :: "int \<Rightarrow> pydict list \<Rightarrow> nat option" where
  "find_post_index i store = enumerate_find i 0 store"

text \<open>
  \<^verbatim>\<open>randrange(start, stop)\<close> draws from \<^verbatim>\<open>range(start, stop)\<close>. The draw is a parameter: the
  natural number \<open>e\<close> stands for the generator's state, and every member of the range is the
  result of some \<open>e\<close> (lemma \<open>randrange_onto\<close>).
\<close>

definition randrange :: "int \<Rightarrow> int \<Rightarrow> nat \<Rightarrow> int" where
  "randrange start stop e = start + int e mod (stop - start)"

text \<open>\<^verbatim>\<open>{"data": ...}\<close>.\<close>

datatype 'a envelope = Data 'a

definition mem_get_tasks :: "pydict list \<Rightarrow> (exn + pydict list envelope) \<times> pydict list" where
  "mem_get_tasks store = (Inr (Data store), store)"

definition mem_create_task ::
  "mem_Task \<Rightarrow> nat \<Rightarrow> pydict list \<Rightarrow> (exn + pydict envelope) \<times> pydict list" where
  "mem_create_task new_task e store =
     (let task = mem_Task_dict new_task;
          task = task(''id'' \<mapsto> VInt (randrange 3 10000 e))
      in (Inr (Data task), store @ [task]))"

definition mem_delete_task :: "int \<Rightarrow> pydict list \<Rightarrow> (exn + response) \<times> pydict list" where
  "mem_delete_task i store =
     (case find_post_index i store of
        None \<Rightarrow> (Inl (HTTPException 404 (''Task not found with this id '' @ str_int i)), store)
      | Some index \<Rightarrow> (Inr (Response 204), take index store @ drop (Suc index) store))"

definition mem_update_task ::
  "int \<Rightarrow> mem_Task \<Rightarrow> pydict list \<Rightarrow> (exn + pydict envelope) \<times> pydict list" where
  "mem_update_task i update_post store =
     (case find_post_index i store of
        None \<Rightarrow> (Inl (HTTPException 404 (''Task not found with this id '' @ str_int i)), store)
      | Some index \<Rightarrow>
          (let task = mem_Task_dict update_post;
               task = task(''id'' \<mapsto> VInt i)
           in (Inr (Data task), store[index := task])))"

text \<open>The routes: the body is validated before the handler is called.\<close>

definition mem_GET_tasks :: "pydict list \<Rightarrow> pydict list envelope reply \<times> pydict list" where
  "mem_GET_tasks store = respond 200 (mem_get_tasks store)"

definition mem_POST_tasks ::
  "mem_body \<Rightarrow> nat \<Rightarrow> pydict list \<Rightarrow> pydict envelope reply \<times> pydict list" where
  "mem_POST_tasks body e store =
     (case mem_Task_validate body of
        Inl err \<Rightarrow> (Failure (status_of err) err, store)
      | Inr new_task \<Rightarrow> respond 201 (mem_create_task new_task e store))"

definition mem_DELETE_task :: "int \<Rightarrow> pydict list \<Rightarrow> unit reply \<times> pydict list" where
  "mem_DELETE_task i store = respond_raw (mem_delete_task i store)"

definition mem_PUT_task ::
  "int \<Rightarrow> mem_body \<Rightarrow> pydict list \<Rightarrow> pydict envelope reply \<times> pydict list" where
  "mem_PUT_task i body store =
     (case mem_Task_validate body of
        Inl err \<Rightarrow> (Failure (status_of err) err, store)
      | Inr update_post \<Rightarrow> respond 200 (mem_update_task i update_post store))"

section \<open>The SQLAlchemy variants: schemas, table and session\<close>

text \<open>
  \<^verbatim>\<open>models.Task\<close>: a row of the table \<^verbatim>\<open>tasks\<close>. \<^verbatim>\<open>id\<close> is the primary key; \<^verbatim>\<open>name\<close>,
  \<^verbatim>\<open>completed\<close> and \<^verbatim>\<open>created_at\<close> are declared \<^verbatim>\<open>nullable=False\<close>.
\<close>

record task =
  task_id :: int
  task_name :: string
  task_description :: "string option"
  task_completed :: bool
  task_created_at :: nat

text \<open>
  The database the session talks to: the rows in storage order, and the next value of the
  sequence behind the primary key.
\<close>

record database =
  rows :: "task list"
  id_seq :: int

text \<open>\<^verbatim>\<open>schemas.TaskBase\<close> and \<^verbatim>\<open>schemas.TaskCreate\<close>.\<close>

record TaskCreate =
  name :: string
  description :: "string option"
  completed :: bool

text \<open>
  The JSON body of a create or an update. \<^verbatim>\<open>schemas.TaskUpdate\<close> declares its three fields
  \<^verbatim>\<open>Optional[...] = None\<close>, so every body is valid for it, and the model object remembers
  which fields the body set: it is the body itself.
\<close>

record task_body =
  b_name :: "string field"
  b_description :: "string field"
  b_completed :: "bool field"

type_synonym TaskUpdate = task_body

definition TaskCreate_validate :: "task_body \<Rightarrow> exn + TaskCreate" where
  "TaskCreate_validate b =
     (case (required (b_name b), with_default False (b_completed b)) of
        (Some n, Some c) \<Rightarrow>
          Inr \<lparr>name = n, description = optional (b_description b), completed = c\<rparr>
      | (n, c) \<Rightarrow>
          Inl (RequestValidationError (invalid ''name'' n @ invalid ''completed'' c)))"

text \<open>
  The column attributes of a \<^verbatim>\<open>models.Task\<close> instance in Python, where \<^verbatim>\<open>None\<close> can be
  assigned to any of them; \<open>None\<close> in a \<^verbatim>\<open>nullable=False\<close> column is refused when the row is
  written.
\<close>

record task_attrs =
  attr_name :: "string option"
  attr_description :: "string option"
  attr_completed :: "bool option"

definition attrs_of :: "task \<Rightarrow> task_attrs" where
  "attrs_of t =
     \<lparr>attr_name = Some (task_name t), attr_description = task_description t,
      attr_completed = Some (task_completed t)\<rparr>"

definition row_of :: "int \<Rightarrow> nat \<Rightarrow> task_attrs \<Rightarrow> task option" where
  "row_of i created a =
     (case (attr_name a, attr_completed a) of
        (Some n, Some c) \<Rightarrow>
          Some \<lparr>task_id = i, task_name = n, task_description = attr_description a,
                task_completed = c, task_created_at = created\<rparr>
      | _ \<Rightarrow> None)"

text \<open>An item of \<^verbatim>\<open>updated_task.dict(exclude_unset=True)\<close>: a key with its value.\<close>

datatype item =
    Name "string option"
  | Description "string option"
  | Completed "bool option"

fun item_of :: "('a option \<Rightarrow> item) \<Rightarrow> 'a field \<Rightarrow> item list" where
  "item_of key Unset = []"
| "item_of key Null = [key None]"
| "item_of key (Given v) = [key (Some v)]"

definition dict_exclude_unset :: "TaskUpdate \<Rightarrow> item list" where
  "dict_exclude_unset u =
     item_of Name (b_name u) @ item_of Description (b_description u)
       @ item_of Completed (b_completed u)"

fun setattr :: "task_attrs \<Rightarrow> item \<Rightarrow> task_attrs" where
  "setattr a (Name v) = a\<lparr>attr_name := v\<rparr>"
| "setattr a (Description v) = a\<lparr>attr_description := v\<rparr>"
| "setattr a (Completed v) = a\<lparr>attr_completed := v\<rparr>"

text \<open>\<^verbatim>\<open>db.query(models.Task).filter(models.Task.id == task_id).first()\<close>.\<close>

definition query_first :: "int \<Rightarrow> database \<Rightarrow> task option" where
  "query_first i db = find (\<lambda>t. task_id t = i) (rows db)"

text \<open>
  \<^verbatim>\<open>LIKE\<close> as PostgreSQL (the engine of \<^verbatim>\<open>DATABASE_URL\<close>) matches it: \<^verbatim>\<open>%\<close> stands for any
  run of characters, \<^verbatim>\<open>_\<close> for any single one, and a backslash takes the next pattern
  character literally. A pattern that ends in a lone backslash is an error there; the
  patterns of \<open>contains\<close> all end in \<^verbatim>\<open>%\<close>.
\<close>

fun like :: "string \<Rightarrow> string \<Rightarrow> bool" where
  "like [] s = (s = [])"
| "like (p # ps) s =
     (if p = CHR ''%'' then
        (like ps s \<or> (case s of [] \<Rightarrow> False | c # cs \<Rightarrow> like (p # ps) cs))
      else if p = CHR ''_'' then
        (case s of [] \<Rightarrow> False | c # cs \<Rightarrow> like ps cs)
      else if p = CHR 0x5C then
        (case ps of
           [] \<Rightarrow> False
         | q # qs \<Rightarrow> (case s of [] \<Rightarrow> False | c # cs \<Rightarrow> c = q \<and> like qs cs))
      else (case s of [] \<Rightarrow> False | c # cs \<Rightarrow> c = p \<and> like ps cs))"

text \<open>
  \<^verbatim>\<open>models.Task.name.contains(search)\<close>: SQLAlchemy renders
  \<^verbatim>\<open>name LIKE '%' || :search || '%'\<close> and passes \<open>search\<close> as it is.
\<close>

definition contains :: "string \<Rightarrow> string \<Rightarrow> bool" where
  "contains col search = like (''%'' @ search @ ''%'') col"

text \<open>
  What the driver and the server refuse of a statement's parameters. psycopg2 raises
  \<^verbatim>\<open>ValueError\<close> for a string that holds the NUL character, before anything is sent; the
  column \<^verbatim>\<open>id\<close> is declared \<^verbatim>\<open>Integer\<close> (32 bits); \<^verbatim>\<open>LIMIT\<close> and \<^verbatim>\<open>OFFSET\<close> are 64-bit
  values that must not be negative.
\<close>

definition has_nul :: "string \<Rightarrow> bool" where
  "has_nul s = (CHR 0x00 \<in> set s)"

definition nul_in :: "string option \<Rightarrow> bool" where
  "nul_in v = (case v of None \<Rightarrow> False | Some s \<Rightarrow> has_nul s)"

definition nul_refused :: exn where
  "nul_refused = ValueError ''A string literal cannot contain NUL (0x00) characters.''"

definition in_Integer :: "int \<Rightarrow> bool" where
  "in_Integer i = (- 2147483648 \<le> i \<and> i \<le> 2147483647)"

definition in_page :: "int \<Rightarrow> bool" where
  "in_page n = (0 \<le> n \<and> n \<le> 9223372036854775807)"

section \<open>The SQLAlchemy variants: the router\<close>

text \<open>
  The handlers are given on the table as committed: each of them commits at most once, and
  a statement that is refused leaves the table as it was.

  \<^verbatim>\<open>.filter(...).limit(limit).offset(skip).all()\<close> is one \<^verbatim>\<open>SELECT ... LIMIT limit OFFSET skip\<close>
  with no \<^verbatim>\<open>ORDER BY\<close>: the matching rows in storage order, the first \<open>skip\<close> left out and
  at most \<open>limit\<close> returned.
\<close>

definition get_tasks ::
  "int \<Rightarrow> int \<Rightarrow> string \<Rightarrow> database \<Rightarrow> (exn + task list) \<times> database" where
  "get_tasks limit skip search db =
     (if has_nul search then (Inl nul_refused, db)
      else if in_page limit \<and> in_page skip then
        (Inr (take (nat limit)
               (drop (nat skip) (filter (\<lambda>t. contains (task_name t) search) (rows db)))),
         db)
      else (Inl (SQLAlchemyError ''DataError''), db))"

text \<open>
  \<^verbatim>\<open>create_task\<close>. \<^verbatim>\<open>db.commit()\<close> writes the \<^verbatim>\<open>INSERT\<close>: the id is the next value of the
  sequence, \<^verbatim>\<open>created_at\<close> is the server's clock \<open>now\<close>, and a second row with the same
  primary key is refused. \<^verbatim>\<open>db.refresh(new_task)\<close> reads the row back by its primary key.
\<close>

definition create_task ::
  "TaskCreate \<Rightarrow> nat \<Rightarrow> database \<Rightarrow> (exn + task) \<times> database" where
  "create_task task now db =
     (let new_task =
            \<lparr>attr_name = Some (name task), attr_description = description task,
             attr_completed = Some (completed task)\<rparr>;
          i = id_seq db
      in if nul_in (attr_name new_task) \<or> nul_in (attr_description new_task) then
           (Inl nul_refused, db)
         else if \<not> in_Integer i then (Inl (SQLAlchemyError ''DataError''), db)
         else
           (let db1 = db\<lparr>id_seq := i + 1\<rparr>
            in case row_of i now new_task of
                 None \<Rightarrow> (Inl (SQLAlchemyError ''IntegrityError''), db1)
               | Some r \<Rightarrow>
                   if i \<in> set (map task_id (rows db)) then
                     (Inl (SQLAlchemyError ''IntegrityError''), db1)
                   else
                     (let db2 = db1\<lparr>rows := rows db @ [r]\<rparr>
                      in case query_first i db2 of
                           None \<Rightarrow> (Inl (SQLAlchemyError ''InvalidRequestError''), db2)
                         | Some t \<Rightarrow> (Inr t, db2))))"

definition get_task :: "int \<Rightarrow> database \<Rightarrow> (exn + task) \<times> database" where
  "get_task i db =
     (case query_first i db of
        None \<Rightarrow>
          (Inl (HTTPException 404 (''Task with id: '' @ str_int i @ '' not found'')), db)
      | Some task \<Rightarrow> (Inr task, db))"

text \<open>
  \<^verbatim>\<open>delete_task\<close>: \<^verbatim>\<open>db.delete(task); db.commit()\<close> is
  \<^verbatim>\<open>DELETE FROM tasks WHERE id = <task.id>\<close>.
\<close>

definition delete_task :: "int \<Rightarrow> database \<Rightarrow> (exn + response) \<times> database" where
  "delete_task i db =
     (case query_first i db of
        None \<Rightarrow>
          (Inl (HTTPException 404 (''Task with id: '' @ str_int i @ '' does not exist'')), db)
      | Some task \<Rightarrow>
          (Inr (Response 204),
           db\<lparr>rows := filter (\<lambda>t. task_id t \<noteq> task_id task) (rows db)\<rparr>))"

text \<open>
  The string parameters of the \<^verbatim>\<open>UPDATE\<close>: the new values of the text columns whose
  attribute differs from the loaded one (an attribute assigned the value it had is not
  written).
\<close>

definition changed_strings :: "task_attrs \<Rightarrow> task_attrs \<Rightarrow> string option list" where
  "changed_strings loaded attrs =
     (if attr_name attrs = attr_name loaded then [] else [attr_name attrs])
       @ (if attr_description attrs = attr_description loaded then []
          else [attr_description attrs])"

text \<open>
  \<^verbatim>\<open>update_task\<close>: the loop assigns every item of the dict to the instance. When no
  attribute has changed \<^verbatim>\<open>db.commit()\<close> writes nothing. Otherwise it writes
  \<^verbatim>\<open>UPDATE tasks SET ... WHERE id = <task.id>\<close>, refused when a \<^verbatim>\<open>nullable=False\<close> column would
  become \<^verbatim>\<open>NULL\<close>; PostgreSQL writes the new version of the row after the rows of the table,
  which is where a later scan finds it. \<^verbatim>\<open>db.refresh(task)\<close> reads the row back.
\<close>

definition update_task ::
  "int \<Rightarrow> TaskUpdate \<Rightarrow> database \<Rightarrow> (exn + task) \<times> database" where
  "update_task i updated_task db =
     (case query_first i db of
        None \<Rightarrow>
          (Inl (HTTPException 404 (''Task with id: '' @ str_int i @ '' does not exist'')), db)
      | Some task \<Rightarrow>
          (let attrs =
                 fold (\<lambda>kv a. setattr a kv) (dict_exclude_unset updated_task) (attrs_of task)
           in if attrs = attrs_of task then
                (case query_first (task_id task) db of
                   None \<Rightarrow> (Inl (SQLAlchemyError ''InvalidRequestError''), db)
                 | Some t \<Rightarrow> (Inr t, db))
              else if list_ex nul_in (changed_strings (attrs_of task) attrs) then
                (Inl nul_refused, db)
              else
                (case row_of (task_id task) (task_created_at task) attrs of
                   None \<Rightarrow> (Inl (SQLAlchemyError ''IntegrityError''), db)
                 | Some r \<Rightarrow>
                     (let db' =
                            db\<lparr>rows :=
                                 filter (\<lambda>t. task_id t \<noteq> task_id task) (rows db) @ [r]\<rparr>
                      in case query_first (task_id task) db' of
                           None \<Rightarrow> (Inl (SQLAlchemyError ''InvalidRequestError''), db')
                         | Some t \<Rightarrow> (Inr t, db')))))"

text \<open>The routes, with the status code of each decorator.\<close>

definition GET_tasks ::
  "int \<Rightarrow> int \<Rightarrow> string \<Rightarrow> database \<Rightarrow> task list reply \<times> database" where
  "GET_tasks limit skip search db = respond 200 (get_tasks limit skip search db)"

definition POST_tasks :: "task_body \<Rightarrow> nat \<Rightarrow> database \<Rightarrow> task reply \<times> database" where
  "POST_tasks body now db =
     (case TaskCreate_validate body of
        Inl err \<Rightarrow> (Failure (status_of err) err, db)
      | Inr task \<Rightarrow> respond 201 (create_task task now db))"

definition GET_task :: "int \<Rightarrow> database \<Rightarrow> task reply \<times> database" where
  "GET_task i db = respond 200 (get_task i db)"

definition DELETE_task :: "int \<Rightarrow> database \<Rightarrow> unit reply \<times> database" where
  "DELETE_task i db = respond_raw (delete_task i db)"

definition PUT_task :: "int \<Rightarrow> task_body \<Rightarrow> database \<Rightarrow> task reply \<times> database" where
  "PUT_task i body db = respond 200 (update_task i body db)"

section \<open>The SQLAlchemy variants: the session dependency\<close>

text \<open>
  A session: the table as the server has it committed, the table as the transaction this
  session has open sees it (\<open>None\<close>: no transaction is open), and whether the session has
  been closed. \<^verbatim>\<open>db.rollback()\<close> ends the open transaction and drops what it had written;
  \<^verbatim>\<open>db.close()\<close> releases the connection, which rolls an open transaction back as well.
  Neither touches what is committed.
\<close>

record session =
  server :: database
  open_transaction :: "database option"
  is_closed :: bool

definition SessionLocal :: "database \<Rightarrow> session" where
  "SessionLocal d = \<lparr>server = d, open_transaction = None, is_closed = False\<rparr>"

definition db_rollback :: "session \<Rightarrow> session" where
  "db_rollback db = db\<lparr>open_transaction := None\<rparr>"

definition db_close :: "session \<Rightarrow> session" where
  "db_close db = db\<lparr>open_transaction := None, is_closed := True\<rparr>"

text \<open>
  \<^verbatim>\<open>get_db\<close> is a generator: it yields the session, the request runs, and the generator is
  resumed with the request's exception (if any) raised at the \<^verbatim>\<open>yield\<close>. The model takes
  that exception and the session as the request left it, and returns what the generator
  prints, the exception that leaves it (\<open>None\<close>: it returns normally) and the session.

  \<^verbatim>\<open>APIWithTestCases/fastapiEx/database.py\<close>: \<^verbatim>\<open>try: yield db finally: db.close()\<close>.
\<close>

definition get_db :: "exn option \<Rightarrow> session \<Rightarrow> string list \<times> exn option \<times> session" where
  "get_db raised db = ([], raised, db_close db)"

text \<open>
  \<^verbatim>\<open>FastAPI With Sqlalcehmy/Postgresql/app/database.py\<close>: the \<^verbatim>\<open>except SQLAlchemyError\<close>
  clause prints, rolls back and does not raise again; \<^verbatim>\<open>finally\<close> closes.
\<close>

definition pg_get_db :: "exn option \<Rightarrow> session \<Rightarrow> string list \<times> exn option \<times> session" where
  "pg_get_db raised db =
     (case raised of
        Some (SQLAlchemyError e) \<Rightarrow>
          ([''An error occurred: '' @ e], None, db_close (db_rollback db))
      | _ \<Rightarrow> ([], raised, db_close db))"

text \<open>
  A request served with a session dependency: the session is made, the handler runs on
  it, the dependency is resumed with the handler's exception, and then the answer leaves.
  An exception of the handler that the dependency does not raise again still ends in the
  framework's server error: it has no response to send.
\<close>

definition serve ::
  "(exn option \<Rightarrow> session \<Rightarrow> string list \<times> exn option \<times> session) \<Rightarrow> nat
     \<Rightarrow> (session \<Rightarrow> (exn + 'a) \<times> session) \<Rightarrow> database \<Rightarrow> 'a reply \<times> session" where
  "serve dependency code handler d =
     (case handler (SessionLocal d) of
        (Inr v, db1) \<Rightarrow>
          (case dependency None db1 of
             (out, None, db2) \<Rightarrow> (Reply code (Some v), db2)
           | (out, Some e', db2) \<Rightarrow> (Failure (status_of e') e', db2))
      | (Inl e, db1) \<Rightarrow>
          (case dependency (Some e) db1 of
             (out, Some e', db2) \<Rightarrow> (Failure (status_of e') e', db2)
           | (out, None, db2) \<Rightarrow> (Failure 500 e, db2)))"

section \<open>The specification's words\<close>

text \<open>
  The partial update: a field present in the input takes the input's value (\<^verbatim>\<open>null\<close> clears
  the description), a field omitted from the input keeps its prior value, and \<^verbatim>\<open>id\<close> and
  \<^verbatim>\<open>created_at\<close> are not touched. \<^verbatim>\<open>name\<close> and \<^verbatim>\<open>completed\<close> have no null value in a stored
  task; for an input that sets one of them to \<^verbatim>\<open>null\<close> this definition keeps the prior
  value, and the facts below say nothing of such an input.
\<close>

definition spec_merge :: "TaskUpdate \<Rightarrow> task \<Rightarrow> task" where
  "spec_merge u t =
     t\<lparr>task_name := (case b_name u of Given n \<Rightarrow> n | _ \<Rightarrow> task_name t),
       task_description :=
         (case b_description u of
            Unset \<Rightarrow> task_description t
          | Null \<Rightarrow> None
          | Given d \<Rightarrow> Some d),
       task_completed := (case b_completed u of Given c \<Rightarrow> c | _ \<Rightarrow> task_completed t)\<rparr>"

text \<open>
  The id a message names: the number its decimal numeral denotes, read digit by digit
  (\<open>None\<close> when the text is not a numeral), and the shape of a numeral as Python writes an
  integer: digits only, a minus sign before a negative number, and no leading zero.
\<close>

definition digit_of :: "char \<Rightarrow> nat option" where
  "digit_of c =
     (if c \<in> set ''0123456789'' then Some (of_char c - 48) else None)"

fun read_digits :: "nat \<Rightarrow> string \<Rightarrow> nat option" where
  "read_digits acc [] = Some acc"
| "read_digits acc (c # cs) =
     (case digit_of c of None \<Rightarrow> None | Some d \<Rightarrow> read_digits (10 * acc + d) cs)"

definition read_nat :: "string \<Rightarrow> nat option" where
  "read_nat s = (if s = [] then None else read_digits 0 s)"

definition read_int :: "string \<Rightarrow> int option" where
  "read_int s =
     (case s of
        [] \<Rightarrow> None
      | c # cs \<Rightarrow>
          if c = CHR ''-'' then map_option (\<lambda>n. - int n) (read_nat cs)
          else map_option int (read_nat s))"

definition plain_numeral :: "string \<Rightarrow> bool" where
  "plain_numeral s =
     (case s of
        [] \<Rightarrow> False
      | c # cs \<Rightarrow>
          if c = CHR ''-'' then cs \<noteq> [] \<and> hd cs \<noteq> CHR ''0'' \<and> list_all (\<lambda>d. digit_of d \<noteq> None) cs
          else (c \<noteq> CHR ''0'' \<or> cs = []) \<and> list_all (\<lambda>d. digit_of d \<noteq> None) s)"

section \<open>Facts about the in-memory variant\<close>

lemma randrange_bounds:
  assumes "start < stop"
  shows "start \<le> randrange start stop e \<and> randrange start stop e < stop"
proof -
  from assms have pos: "0 < stop - start" by simp
  have "0 \<le> int e mod (stop - start)"
    using pos by (rule pos_mod_sign)
  moreover have "int e mod (stop - start) < stop - start"
    using pos by (rule pos_mod_bound)
  ultimately show ?thesis
    unfolding randrange_def by linarith
qed

lemma randrange_onto:
  assumes "start \<le> v" and "v < stop"
  shows "randrange start stop (nat (v - start)) = v"
  using assms by (simp add: randrange_def)

text \<open>
  Claim C9. In the in-memory variant every id that \<open>mem_create_task\<close> assigns lies in the
  range 3 to 9999 inclusive, whatever the draw, so the created dict never carries the id of
  a seeded record (1 and 2).
\<close>

theorem mem_create_task_id_range:
  "\<exists>task v. mem_create_task new_task e store = (Inr (Data task), store @ [task])
     \<and> task ''id'' = Some (VInt v) \<and> 3 \<le> v \<and> v \<le> 9999
     \<and> task ''id'' \<notin> set (map (\<lambda>t. t ''id'') my_tasks)"
proof -
  define v where "v = randrange 3 10000 e"
  define task where "task = (mem_Task_dict new_task)(''id'' \<mapsto> VInt v)"
  have range: "3 \<le> v \<and> v < 10000"
    unfolding v_def by (rule randrange_bounds) simp
  have "mem_create_task new_task e store = (Inr (Data task), store @ [task])"
    by (simp add: mem_create_task_def task_def v_def Let_def)
  moreover have "task ''id'' = Some (VInt v)"
    by (simp add: task_def)
  moreover have "task ''id'' \<notin> set (map (\<lambda>t. t ''id'') my_tasks)"
    using range by (simp add: task_def my_tasks_def)
  ultimately show ?thesis
    using range by auto
qed

text \<open>
  Claim C2. Every create is to assign an id distinct from the ids already in the store. The
  in-memory \<open>mem_create_task\<close> draws the id and appends without looking at the store: two
  creates whose draws coincide (here both draw 3) leave two records with the id 3.
\<close>

theorem mem_create_task_repeats_id:
  "map (\<lambda>t. t ''id'')
     (snd (mem_create_task \<lparr>mem_name = ''b'', mem_task = ''y'', mem_completed = False\<rparr> 0
        (snd (mem_create_task \<lparr>mem_name = ''a'', mem_task = ''x'', mem_completed = False\<rparr> 0
           my_tasks))))
   = [Some (VInt 1), Some (VInt 2), Some (VInt 3), Some (VInt 3)]"
  by (simp add: mem_create_task_def my_tasks_def randrange_def Let_def)

section \<open>Facts about the SQLAlchemy variants\<close>

text \<open>The sibling path: a create that succeeds on the table returns an id no row had.\<close>

lemma create_task_fresh_id:
  assumes "create_task task now db = (Inr r, db')"
  shows "task_id r \<notin> set (map task_id (rows db))"
proof -
  from assms have fresh: "id_seq db \<notin> set (map task_id (rows db))"
    by (auto simp: create_task_def Let_def row_of_def split: option.splits if_splits)
  from assms obtain db2 where "query_first (id_seq db) db2 = Some r"
    by (auto simp: create_task_def Let_def row_of_def split: option.splits if_splits)
  then have "task_id r = id_seq db"
    by (auto simp: query_first_def find_Some_iff)
  with fresh show ?thesis by simp
qed

text \<open>
  Claim C10. The search term goes into the \<^verbatim>\<open>LIKE\<close> pattern unescaped: the search \<^verbatim>\<open>a_c\<close>
  returns the task named \<^verbatim>\<open>abc\<close> and the search \<^verbatim>\<open>b%d\<close> the task named \<^verbatim>\<open>bread\<close>, and
  neither name has the search string as a substring.
\<close>

theorem get_tasks_like_wildcards:
  "get_tasks 10 0 ''a_c''
     \<lparr>rows = [\<lparr>task_id = 1, task_name = ''abc'', task_description = None,
                task_completed = False, task_created_at = 0\<rparr>,
              \<lparr>task_id = 2, task_name = ''bread'', task_description = None,
                task_completed = False, task_created_at = 0\<rparr>], id_seq = 3\<rparr>
   = (Inr [\<lparr>task_id = 1, task_name = ''abc'', task_description = None,
                task_completed = False, task_created_at = 0\<rparr>],
      \<lparr>rows = [\<lparr>task_id = 1, task_name = ''abc'', task_description = None,
                task_completed = False, task_created_at = 0\<rparr>,
              \<lparr>task_id = 2, task_name = ''bread'', task_description = None,
                task_completed = False, task_created_at = 0\<rparr>], id_seq = 3\<rparr>)
   \<and> \<not> sublist ''a_c'' ''abc''
   \<and> fst (get_tasks 10 0 ''b%d''
     \<lparr>rows = [\<lparr>task_id = 1, task_name = ''abc'', task_description = None,
                task_completed = False, task_created_at = 0\<rparr>,
              \<lparr>task_id = 2, task_name = ''bread'', task_description = None,
                task_completed = False, task_created_at = 0\<rparr>], id_seq = 3\<rparr>)
   = Inr [\<lparr>task_id = 2, task_name = ''bread'', task_description = None,
                task_completed = False, task_created_at = 0\<rparr>]
   \<and> \<not> sublist ''b%d'' ''bread''"
  by (simp add: get_tasks_def contains_def sublist_code has_nul_def in_page_def)

section \<open>Looking a task up\<close>

lemma str_int_999: "str_int 999 = ''999''"
  by code_simp

lemma query_first_None_iff:
  "query_first i db = None \<longleftrightarrow> i \<notin> set (map task_id (rows db))"
  by (auto simp: query_first_def find_None_iff)

lemma query_first_SomeD:
  assumes "query_first i db = Some t"
  shows "t \<in> set (rows db) \<and> task_id t = i"
  using assms by (auto simp: query_first_def find_Some_iff)

lemma query_first_present:
  assumes "i \<in> set (map task_id (rows db))"
  obtains t where "query_first i db = Some t" "t \<in> set (rows db)" "task_id t = i"
proof -
  from assms have "query_first i db \<noteq> None"
    by (simp add: query_first_None_iff)
  then obtain t where "query_first i db = Some t" by auto
  with that query_first_SomeD show thesis by blast
qed

lemma enumerate_find_None_iff:
  "enumerate_find i k store = None \<longleftrightarrow> Some (VInt i) \<notin> set (map (\<lambda>t. t ''id'') store)"
  by (induction store arbitrary: k) auto

lemma find_post_index_None_iff:
  "find_post_index i store = None \<longleftrightarrow> Some (VInt i) \<notin> set (map (\<lambda>t. t ''id'') store)"
  by (simp add: find_post_index_def enumerate_find_None_iff)

lemma enumerate_find_SomeD:
  assumes "enumerate_find i k store = Some n"
  shows "k \<le> n \<and> n - k < length store \<and> (store ! (n - k)) ''id'' = Some (VInt i)"
  using assms
proof (induction store arbitrary: k)
  case Nil
  then show ?case by simp
next
  case (Cons task rest)
  show ?case
  proof (cases "task ''id'' = Some (VInt i)")
    case True
    with Cons.prems show ?thesis by simp
  next
    case False
    with Cons.prems have "enumerate_find i (Suc k) rest = Some n" by simp
    from Cons.IH [OF this]
    have "Suc k \<le> n" and "n - Suc k < length rest"
      and "(rest ! (n - Suc k)) ''id'' = Some (VInt i)" by simp_all
    moreover from \<open>Suc k \<le> n\<close> have "n - k = Suc (n - Suc k)" by simp
    ultimately show ?thesis by simp
  qed
qed

lemma find_post_index_SomeD:
  assumes "find_post_index i store = Some n"
  shows "n < length store \<and> (store ! n) ''id'' = Some (VInt i)"
  using enumerate_find_SomeD [of i 0 store n] assms by (simp add: find_post_index_def)

lemma find_post_index_present:
  assumes "Some (VInt i) \<in> set (map (\<lambda>t. t ''id'') store)"
  obtains n where "find_post_index i store = Some n" "n < length store"
    "(store ! n) ''id'' = Some (VInt i)"
proof -
  from assms have "find_post_index i store \<noteq> None"
    by (simp add: find_post_index_None_iff)
  then obtain n where "find_post_index i store = Some n" by auto
  with that find_post_index_SomeD show thesis by blast
qed

text \<open>
  Claim C8. An update or a delete whose id is not in the store raises the not-found error
  and returns the store as it was: in the SQLAlchemy router and in the in-memory variant.
\<close>

theorem absent_id_leaves_store_unchanged:
  "(i \<notin> set (map task_id (rows db)) \<longrightarrow>
      update_task i updated_task db
        = (Inl (HTTPException 404 (''Task with id: '' @ str_int i @ '' does not exist'')), db)
      \<and> delete_task i db
        = (Inl (HTTPException 404 (''Task with id: '' @ str_int i @ '' does not exist'')), db))
   \<and> (Some (VInt i) \<notin> set (map (\<lambda>t. t ''id'') store) \<longrightarrow>
      mem_update_task i update_post store
        = (Inl (HTTPException 404 (''Task not found with this id '' @ str_int i)), store)
      \<and> mem_delete_task i store
        = (Inl (HTTPException 404 (''Task not found with this id '' @ str_int i)), store))"
proof (intro conjI impI)
  assume "i \<notin> set (map task_id (rows db))"
  then have none: "query_first i db = None"
    by (simp add: query_first_None_iff)
  show "update_task i updated_task db
        = (Inl (HTTPException 404 (''Task with id: '' @ str_int i @ '' does not exist'')), db)"
    by (simp add: update_task_def none)
  show "delete_task i db
        = (Inl (HTTPException 404 (''Task with id: '' @ str_int i @ '' does not exist'')), db)"
    by (simp add: delete_task_def none)
next
  assume "Some (VInt i) \<notin> set (map (\<lambda>t. t ''id'') store)"
  then have none: "find_post_index i store = None"
    by (simp add: find_post_index_None_iff)
  show "mem_update_task i update_post store
        = (Inl (HTTPException 404 (''Task not found with this id '' @ str_int i)), store)"
    by (simp add: mem_update_task_def none)
  show "mem_delete_task i store
        = (Inl (HTTPException 404 (''Task not found with this id '' @ str_int i)), store)"
    by (simp add: mem_delete_task_def none)
qed

theorem absent_id_leaves_store_unchanged_witness:
  "999 \<notin> set (map task_id (rows \<lparr>rows = [\<lparr>task_id = 1, task_name = ''Buy milk'',
        task_description = None, task_completed = False, task_created_at = 0\<rparr>], id_seq = 2\<rparr>))
   \<and> update_task 999 \<lparr>b_name = Given ''x'', b_description = Unset, b_completed = Unset\<rparr>
        \<lparr>rows = [\<lparr>task_id = 1, task_name = ''Buy milk'',
        task_description = None, task_completed = False, task_created_at = 0\<rparr>], id_seq = 2\<rparr>
      = (Inl (HTTPException 404 ''Task with id: 999 does not exist''),
         \<lparr>rows = [\<lparr>task_id = 1, task_name = ''Buy milk'',
        task_description = None, task_completed = False, task_created_at = 0\<rparr>], id_seq = 2\<rparr>)
   \<and> delete_task 999
        \<lparr>rows = [\<lparr>task_id = 1, task_name = ''Buy milk'',
        task_description = None, task_completed = False, task_created_at = 0\<rparr>], id_seq = 2\<rparr>
      = (Inl (HTTPException 404 ''Task with id: 999 does not exist''),
         \<lparr>rows = [\<lparr>task_id = 1, task_name = ''Buy milk'',
        task_description = None, task_completed = False, task_created_at = 0\<rparr>], id_seq = 2\<rparr>)
   \<and> Some (VInt 999) \<notin> set (map (\<lambda>t. t ''id'') my_tasks)
   \<and> mem_update_task 999 \<lparr>mem_name = ''x'', mem_task = ''y'', mem_completed = True\<rparr> my_tasks
      = (Inl (HTTPException 404 ''Task not found with this id 999''), my_tasks)
   \<and> mem_delete_task 999 my_tasks
      = (Inl (HTTPException 404 ''Task not found with this id 999''), my_tasks)"
proof -
  have absent: "999 \<notin> set (map task_id (rows \<lparr>rows = [\<lparr>task_id = 1, task_name = ''Buy milk'',
        task_description = None, task_completed = False, task_created_at = 0\<rparr>], id_seq = 2\<rparr>))"
    by simp
  have mem_absent: "Some (VInt 999) \<notin> set (map (\<lambda>t. t ''id'') my_tasks)"
    by (simp add: my_tasks_def)
  show ?thesis
    using absent mem_absent
      absent_id_leaves_store_unchanged [of 999
        "\<lparr>rows = [\<lparr>task_id = 1, task_name = ''Buy milk'',
        task_description = None, task_completed = False, task_created_at = 0\<rparr>], id_seq = 2\<rparr>"
        "\<lparr>b_name = Given ''x'', b_description = Unset, b_completed = Unset\<rparr>"
        my_tasks "\<lparr>mem_name = ''x'', mem_task = ''y'', mem_completed = True\<rparr>"]
    by (simp add: str_int_999)
qed

lemma query_first_unique:
  assumes "distinct (map task_id (rows db))" and "t \<in> set (rows db)"
  shows "query_first (task_id t) db = Some t"
proof -
  from assms(2) have "task_id t \<in> set (map task_id (rows db))" by simp
  then obtain t' where found: "query_first (task_id t) db = Some t'"
    and "t' \<in> set (rows db)" and "task_id t' = task_id t"
    by (rule query_first_present)
  with assms have "t' = t"
    by (simp add: distinct_map inj_on_def)
  with found show ?thesis by simp
qed

lemma removed_id_absent:
  assumes "distinct (map f xs)" and "n < length xs"
  shows "f (xs ! n) \<notin> set (map f (take n xs @ drop (Suc n) xs))"
proof -
  from assms(2) have "xs = take n xs @ xs ! n # drop (Suc n) xs"
    by (rule id_take_nth_drop)
  then have "map f xs = map f (take n xs) @ f (xs ! n) # map f (drop (Suc n) xs)"
    by (metis list.simps(9) map_append)
  with assms(1) have "distinct (map f (take n xs) @ f (xs ! n) # map f (drop (Suc n) xs))"
    by simp
  then show ?thesis by auto
qed

section \<open>The id in a message\<close>

lemma digit_of_digit:
  assumes "d < 10"
  shows "digit_of (''0123456789'' ! d) = Some d"
proof -
  from assms have "d = 0 \<or> d = 1 \<or> d = 2 \<or> d = 3 \<or> d = 4 \<or> d = 5 \<or> d = 6 \<or> d = 7
      \<or> d = 8 \<or> d = 9"
    by arith
  then show ?thesis
    by (elim disjE) (simp_all add: digit_of_def)
qed

lemma digit_not_zero:
  assumes "d < 10" and "d \<noteq> 0"
  shows "''0123456789'' ! d \<noteq> CHR ''0''"
proof -
  from assms have "d = 1 \<or> d = 2 \<or> d = 3 \<or> d = 4 \<or> d = 5 \<or> d = 6 \<or> d = 7
      \<or> d = 8 \<or> d = 9"
    by arith
  then show ?thesis
    by (elim disjE) simp_all
qed

lemma read_digits_append:
  "read_digits acc (xs @ ys)
     = (case read_digits acc xs of None \<Rightarrow> None | Some a \<Rightarrow> read_digits a ys)"
  by (induction xs arbitrary: acc) (simp_all split: option.split)

lemma str_nat_nonempty: "str_nat n \<noteq> []"
  by (subst str_nat.simps) simp

lemma read_digits_str_nat: "read_digits 0 (str_nat n) = Some n"
proof (induction n rule: str_nat.induct)
  case (1 n)
  show ?case
  proof (cases "n < 10")
    case True
    then show ?thesis
      by (subst str_nat.simps) (simp add: digit_of_digit)
  next
    case False
    with "1.IH" have "read_digits 0 (str_nat (n div 10)) = Some (n div 10)"
      by simp
    moreover have "digit_of (''0123456789'' ! (n mod 10)) = Some (n mod 10)"
      by (rule digit_of_digit) simp
    ultimately show ?thesis
      using False by (subst str_nat.simps) (simp add: read_digits_append)
  qed
qed

lemma str_nat_digits: "list_all (\<lambda>d. digit_of d \<noteq> None) (str_nat n)"
proof (induction n rule: str_nat.induct)
  case (1 n)
  show ?case
  proof (cases "n < 10")
    case True
    then show ?thesis
      by (subst str_nat.simps) (simp add: digit_of_digit)
  next
    case False
    have "digit_of (''0123456789'' ! (n mod 10)) = Some (n mod 10)"
      by (rule digit_of_digit) simp
    with "1.IH" False show ?thesis
      by (subst str_nat.simps) simp
  qed
qed

lemma str_nat_no_leading_zero:
  assumes "n \<noteq> 0"
  shows "hd (str_nat n) \<noteq> CHR ''0''"
  using assms
proof (induction n rule: str_nat.induct)
  case (1 n)
  show ?case
  proof (cases "n < 10")
    case True
    then have "str_nat n = [''0123456789'' ! n]"
      by (subst str_nat.simps) (simp only: if_True)
    with digit_not_zero [OF True "1.prems"] show ?thesis
      by simp
  next
    case False
    then have "n div 10 \<noteq> 0" by simp
    with "1.IH" False have "hd (str_nat (n div 10)) \<noteq> CHR ''0''"
      by simp
    with False show ?thesis
      by (subst str_nat.simps) (simp add: str_nat_nonempty)
  qed
qed

lemma str_nat_zero: "str_nat 0 = ''0''"
  by (subst str_nat.simps) simp

lemma str_nat_no_minus: "hd (str_nat n) \<noteq> CHR ''-''"
proof -
  obtain c cs where s: "str_nat n = c # cs"
    using str_nat_nonempty [of n] by (cases "str_nat n") auto
  with str_nat_digits [of n] have "digit_of c \<noteq> None" by simp
  then have "c \<noteq> CHR ''-''"
    by (auto simp: digit_of_def)
  with s show ?thesis by simp
qed

lemma read_nat_str_nat: "read_nat (str_nat n) = Some n"
  by (simp add: read_nat_def str_nat_nonempty read_digits_str_nat)

text \<open>
  \<open>str_int\<close> writes the numeral of its argument: reading it gives the argument back, and
  it has the plain shape, of which a number has one only.
\<close>

lemma read_int_str_int: "read_int (str_int i) = Some i"
proof (cases "i < 0")
  case True
  then show ?thesis
    by (simp add: str_int_def read_int_def read_nat_str_nat)
next
  case False
  obtain c cs where s: "str_nat (nat i) = c # cs"
    using str_nat_nonempty [of "nat i"] by (cases "str_nat (nat i)") auto
  with str_nat_no_minus [of "nat i"] have "c \<noteq> CHR ''-''" by simp
  moreover from s read_nat_str_nat [of "nat i"] have "read_nat (c # cs) = Some (nat i)"
    by simp
  ultimately show ?thesis
    using False s by (simp add: str_int_def read_int_def)
qed

lemma plain_numeral_str_int: "plain_numeral (str_int i)"
proof (cases "i < 0")
  case True
  then have "nat (- i) \<noteq> 0" by simp
  then have "hd (str_nat (nat (- i))) \<noteq> CHR ''0''"
    by (rule str_nat_no_leading_zero)
  with True str_nat_digits [of "nat (- i)"] show ?thesis
    by (simp add: str_int_def plain_numeral_def str_nat_nonempty)
next
  case False
  obtain c cs where s: "str_nat (nat i) = c # cs"
    using str_nat_nonempty [of "nat i"] by (cases "str_nat (nat i)") auto
  with str_nat_no_minus [of "nat i"] have minus: "c \<noteq> CHR ''-''" by simp
  have lead: "c \<noteq> CHR ''0'' \<or> cs = []"
  proof (cases "nat i = 0")
    case True
    with s str_nat_zero show ?thesis by simp
  next
    case False
    from str_nat_no_leading_zero [OF this] s show ?thesis by simp
  qed
  from str_nat_digits [of "nat i"] s
  have digits: "list_all (\<lambda>d. digit_of d \<noteq> None) (c # cs)"
    by (simp only:)
  from minus have "plain_numeral (c # cs)
      \<longleftrightarrow> (c \<noteq> CHR ''0'' \<or> cs = []) \<and> list_all (\<lambda>d. digit_of d \<noteq> None) (c # cs)"
    by (simp only: plain_numeral_def list.case if_False)
  with lead digits have "plain_numeral (c # cs)"
    by (simp only: simp_thms)
  moreover from False s have "str_int i = c # cs"
    by (simp only: str_int_def if_False)
  ultimately show ?thesis
    by (simp only:)
qed

lemma str_int_inj:
  assumes "str_int i = str_int j"
  shows "i = j"
proof -
  have "Some i = read_int (str_int i)"
    by (simp only: read_int_str_int)
  also have "\<dots> = read_int (str_int j)"
    by (simp only: assms)
  also have "\<dots> = Some j"
    by (simp only: read_int_str_int)
  finally show ?thesis by simp
qed

text \<open>
  Claim C6. Retrieve-by-id returns a stored record carrying the id with status 200 when
  some row has the id (the row itself when ids are unique, as the primary key has them),
  and otherwise fails with status 404 and the detail message \<^verbatim>\<open>Task with id: \<close>, the
  requested id, \<^verbatim>\<open> not found\<close>. The id stands in the message as its decimal numeral: the
  text \<open>str_int\<close> writes reads back as the requested id and has the plain shape of a
  numeral.
\<close>

theorem get_task_found_or_not_found:
  "(i \<in> set (map task_id (rows db)) \<longrightarrow>
      (\<exists>t. t \<in> set (rows db) \<and> task_id t = i \<and> GET_task i db = (Reply 200 (Some t), db)))
   \<and> (distinct (map task_id (rows db)) \<and> r \<in> set (rows db) \<longrightarrow>
      GET_task (task_id r) db = (Reply 200 (Some r), db))
   \<and> (i \<notin> set (map task_id (rows db)) \<longrightarrow>
      GET_task i db
        = (Failure 404 (HTTPException 404 (''Task with id: '' @ str_int i @ '' not found'')), db)
      \<and> sublist (str_int i) (''Task with id: '' @ str_int i @ '' not found''))
   \<and> read_int (str_int i) = Some i
   \<and> plain_numeral (str_int i)"
proof (intro conjI impI)
  assume "i \<in> set (map task_id (rows db))"
  then obtain t where "query_first i db = Some t" and "t \<in> set (rows db)" and "task_id t = i"
    by (rule query_first_present)
  then have "t \<in> set (rows db) \<and> task_id t = i \<and> GET_task i db = (Reply 200 (Some t), db)"
    by (simp add: GET_task_def get_task_def respond_def)
  then show "\<exists>t. t \<in> set (rows db) \<and> task_id t = i \<and> GET_task i db = (Reply 200 (Some t), db)"
    by blast
next
  assume "distinct (map task_id (rows db)) \<and> r \<in> set (rows db)"
  then have "query_first (task_id r) db = Some r"
    by (simp add: query_first_unique)
  then show "GET_task (task_id r) db = (Reply 200 (Some r), db)"
    by (simp add: GET_task_def get_task_def respond_def)
next
  assume "i \<notin> set (map task_id (rows db))"
  then have "query_first i db = None"
    by (simp add: query_first_None_iff)
  then show "GET_task i db
        = (Failure 404 (HTTPException 404 (''Task with id: '' @ str_int i @ '' not found'')), db)"
    by (simp add: GET_task_def get_task_def respond_def)
next
  show "sublist (str_int i) (''Task with id: '' @ str_int i @ '' not found'')"
    by (rule sublist_appendI)
next
  show "read_int (str_int i) = Some i"
    by (rule read_int_str_int)
next
  show "plain_numeral (str_int i)"
    by (rule plain_numeral_str_int)
qed

theorem get_task_found_or_not_found_witness:
  "GET_task 1 \<lparr>rows = [\<lparr>task_id = 1, task_name = ''Buy milk'', task_description = None,
        task_completed = False, task_created_at = 0\<rparr>], id_seq = 2\<rparr>
     = (Reply 200 (Some \<lparr>task_id = 1, task_name = ''Buy milk'', task_description = None,
        task_completed = False, task_created_at = 0\<rparr>),
        \<lparr>rows = [\<lparr>task_id = 1, task_name = ''Buy milk'', task_description = None,
        task_completed = False, task_created_at = 0\<rparr>], id_seq = 2\<rparr>)
   \<and> GET_task 999 \<lparr>rows = [\<lparr>task_id = 1, task_name = ''Buy milk'', task_description = None,
        task_completed = False, task_created_at = 0\<rparr>], id_seq = 2\<rparr>
     = (Failure 404 (HTTPException 404 ''Task with id: 999 not found''),
        \<lparr>rows = [\<lparr>task_id = 1, task_name = ''Buy milk'', task_description = None,
        task_completed = False, task_created_at = 0\<rparr>], id_seq = 2\<rparr>)
   \<and> sublist ''999'' ''Task with id: 999 not found''
   \<and> read_int ''999'' = Some 999
   \<and> plain_numeral ''999''"
  using
    get_task_found_or_not_found [of 1
      "\<lparr>rows = [\<lparr>task_id = 1, task_name = ''Buy milk'', task_description = None,
        task_completed = False, task_created_at = 0\<rparr>], id_seq = 2\<rparr>"
      "\<lparr>task_id = 1, task_name = ''Buy milk'', task_description = None,
        task_completed = False, task_created_at = 0\<rparr>"]
    get_task_found_or_not_found [of 999
      "\<lparr>rows = [\<lparr>task_id = 1, task_name = ''Buy milk'', task_description = None,
        task_completed = False, task_created_at = 0\<rparr>], id_seq = 2\<rparr>"
      "\<lparr>task_id = 1, task_name = ''Buy milk'', task_description = None,
        task_completed = False, task_created_at = 0\<rparr>"]
  by (simp add: str_int_999)

section \<open>Delete\<close>

text \<open>
  The SQLAlchemy router: a delete of an id some row has answers 204 with an empty body,
  the rows with that id are gone and the others stay in order, and a retrieve of the id
  on the resulting table fails with 404.
\<close>

lemma delete_task_then_not_found:
  assumes "i \<in> set (map task_id (rows db))"
  shows "DELETE_task i db
        = (Reply 204 None, db\<lparr>rows := filter (\<lambda>t. task_id t \<noteq> i) (rows db)\<rparr>)"
    and "GET_task i (db\<lparr>rows := filter (\<lambda>t. task_id t \<noteq> i) (rows db)\<rparr>)
        = (Failure 404 (HTTPException 404 (''Task with id: '' @ str_int i @ '' not found'')),
           db\<lparr>rows := filter (\<lambda>t. task_id t \<noteq> i) (rows db)\<rparr>)"
proof -
  from assms obtain t where "query_first i db = Some t" and "task_id t = i"
    by (rule query_first_present)
  then show "DELETE_task i db
        = (Reply 204 None, db\<lparr>rows := filter (\<lambda>t. task_id t \<noteq> i) (rows db)\<rparr>)"
    by (simp add: DELETE_task_def delete_task_def respond_raw_def)
  have "i \<notin> set (map task_id (rows (db\<lparr>rows := filter (\<lambda>t. task_id t \<noteq> i) (rows db)\<rparr>)))"
    by auto
  then have "query_first i (db\<lparr>rows := filter (\<lambda>t. task_id t \<noteq> i) (rows db)\<rparr>) = None"
    unfolding query_first_None_iff .
  then show "GET_task i (db\<lparr>rows := filter (\<lambda>t. task_id t \<noteq> i) (rows db)\<rparr>)
        = (Failure 404 (HTTPException 404 (''Task with id: '' @ str_int i @ '' not found'')),
           db\<lparr>rows := filter (\<lambda>t. task_id t \<noteq> i) (rows db)\<rparr>)"
    by (simp add: GET_task_def get_task_def respond_def)
qed

text \<open>
  The in-memory variant: a delete pops the first record with the id and answers 204; when
  the ids of the list are distinct no record with the id is left.
\<close>

lemma mem_delete_task_pops:
  assumes "Some (VInt i) \<in> set (map (\<lambda>t. t ''id'') store)"
  obtains n where "n < length store" and "(store ! n) ''id'' = Some (VInt i)"
    and "mem_DELETE_task i store = (Reply 204 None, take n store @ drop (Suc n) store)"
    and "distinct (map (\<lambda>t. t ''id'') store)
      \<Longrightarrow> find_post_index i (take n store @ drop (Suc n) store) = None"
proof -
  from assms obtain n where found: "find_post_index i store = Some n" and n: "n < length store"
    and at_n: "(store ! n) ''id'' = Some (VInt i)"
    by (rule find_post_index_present)
  have reply: "mem_DELETE_task i store = (Reply 204 None, take n store @ drop (Suc n) store)"
    by (simp add: mem_DELETE_task_def mem_delete_task_def respond_raw_def found)
  have gone: "find_post_index i (take n store @ drop (Suc n) store) = None"
    if "distinct (map (\<lambda>t. t ''id'') store)"
  proof -
    from that n
    have "(store ! n) ''id'' \<notin> set (map (\<lambda>t. t ''id'') (take n store @ drop (Suc n) store))"
      by (rule removed_id_absent)
    with at_n have "Some (VInt i) \<notin> set (map (\<lambda>t. t ''id'') (take n store @ drop (Suc n) store))"
      by simp
    then show ?thesis
      unfolding find_post_index_None_iff .
  qed
  from n at_n reply gone show thesis
    by (rule that)
qed

text \<open>
  Claim C5. After a delete of a present id the id is to be gone. In the in-memory variant
  two creates whose draws coincide (both draw 3, the defect of claim C2) leave two records
  with the id 3; the delete of 3 answers 204 and pops the first of them, the lookup still
  finds the id 3, and a second delete of 3 answers 204 again where not-found is due.
\<close>

theorem mem_delete_task_leaves_duplicate:
  "map (\<lambda>t. t ''id'')
     (snd (mem_create_task \<lparr>mem_name = ''b'', mem_task = ''y'', mem_completed = False\<rparr> 0
        (snd (mem_create_task \<lparr>mem_name = ''a'', mem_task = ''x'', mem_completed = False\<rparr> 0
           my_tasks))))
     = [Some (VInt 1), Some (VInt 2), Some (VInt 3), Some (VInt 3)]
   \<and> fst (mem_DELETE_task 3
       (snd (mem_create_task \<lparr>mem_name = ''b'', mem_task = ''y'', mem_completed = False\<rparr> 0
          (snd (mem_create_task \<lparr>mem_name = ''a'', mem_task = ''x'', mem_completed = False\<rparr> 0
             my_tasks)))))
     = Reply 204 None
   \<and> map (\<lambda>t. (t ''id'', t ''name''))
       (snd (mem_DELETE_task 3
         (snd (mem_create_task \<lparr>mem_name = ''b'', mem_task = ''y'', mem_completed = False\<rparr> 0
            (snd (mem_create_task \<lparr>mem_name = ''a'', mem_task = ''x'', mem_completed = False\<rparr> 0
               my_tasks))))))
     = [(Some (VInt 1), Some (VStr ''test1'')), (Some (VInt 2), Some (VStr ''test2'')),
        (Some (VInt 3), Some (VStr ''b''))]
   \<and> find_post_index 3
       (snd (mem_DELETE_task 3
         (snd (mem_create_task \<lparr>mem_name = ''b'', mem_task = ''y'', mem_completed = False\<rparr> 0
            (snd (mem_create_task \<lparr>mem_name = ''a'', mem_task = ''x'', mem_completed = False\<rparr> 0
               my_tasks))))))
     = Some 2
   \<and> fst (mem_DELETE_task 3
       (snd (mem_DELETE_task 3
         (snd (mem_create_task \<lparr>mem_name = ''b'', mem_task = ''y'', mem_completed = False\<rparr> 0
            (snd (mem_create_task \<lparr>mem_name = ''a'', mem_task = ''x'', mem_completed = False\<rparr> 0
               my_tasks)))))))
     = Reply 204 None"
  by (simp add: mem_create_task_def mem_DELETE_task_def mem_delete_task_def find_post_index_def
      mem_Task_dict_def my_tasks_def randrange_def respond_raw_def Let_def)

section \<open>The session dependency\<close>

text \<open>
  Claim C4. Whatever the handler has done, when it raises a storage error the request is
  answered with the server error 500, and the session that goes with the answer has no
  transaction open and is closed, with the committed table as the handler left it: the
  transaction in flight has been rolled back, by \<^verbatim>\<open>db.close()\<close> in the test-cases variant
  and by \<^verbatim>\<open>db.rollback()\<close> and \<^verbatim>\<open>db.close()\<close> in the PostgreSQL variant.
\<close>

theorem storage_error_rolled_back_then_500:
  "handler (SessionLocal d) = (Inl (SQLAlchemyError m), db1) \<longrightarrow>
     fst (serve get_db code handler d) = Failure 500 (SQLAlchemyError m)
     \<and> open_transaction (snd (serve get_db code handler d)) = None
     \<and> is_closed (snd (serve get_db code handler d))
     \<and> server (snd (serve get_db code handler d)) = server db1
     \<and> fst (serve pg_get_db code handler d) = Failure 500 (SQLAlchemyError m)
     \<and> open_transaction (snd (serve pg_get_db code handler d)) = None
     \<and> is_closed (snd (serve pg_get_db code handler d))
     \<and> server (snd (serve pg_get_db code handler d)) = server db1"
proof
  assume raised: "handler (SessionLocal d) = (Inl (SQLAlchemyError m), db1)"
  have plain: "serve get_db code handler d = (Failure 500 (SQLAlchemyError m), db_close db1)"
    by (simp add: serve_def raised get_db_def)
  have pg: "serve pg_get_db code handler d
      = (Failure 500 (SQLAlchemyError m), db_close (db_rollback db1))"
    by (simp add: serve_def raised pg_get_db_def)
  show "fst (serve get_db code handler d) = Failure 500 (SQLAlchemyError m)
     \<and> open_transaction (snd (serve get_db code handler d)) = None
     \<and> is_closed (snd (serve get_db code handler d))
     \<and> server (snd (serve get_db code handler d)) = server db1
     \<and> fst (serve pg_get_db code handler d) = Failure 500 (SQLAlchemyError m)
     \<and> open_transaction (snd (serve pg_get_db code handler d)) = None
     \<and> is_closed (snd (serve pg_get_db code handler d))
     \<and> server (snd (serve pg_get_db code handler d)) = server db1"
    by (simp add: plain pg db_close_def db_rollback_def)
qed

theorem storage_error_rolled_back_then_500_witness:
  "serve get_db 201
     (\<lambda>db. (Inl (SQLAlchemyError ''connection lost'') :: exn + task,
        db\<lparr>open_transaction :=
             Some \<lparr>rows = [\<lparr>task_id = 1, task_name = ''Buy milk'', task_description = None,
                         task_completed = False, task_created_at = 7\<rparr>], id_seq = 2\<rparr>\<rparr>))
     \<lparr>rows = [], id_seq = 1\<rparr>
   = (Failure 500 (SQLAlchemyError ''connection lost''),
      \<lparr>server = \<lparr>rows = [], id_seq = 1\<rparr>, open_transaction = None, is_closed = True\<rparr>)
   \<and> serve pg_get_db 201
     (\<lambda>db. (Inl (SQLAlchemyError ''connection lost'') :: exn + task,
        db\<lparr>open_transaction :=
             Some \<lparr>rows = [\<lparr>task_id = 1, task_name = ''Buy milk'', task_description = None,
                         task_completed = False, task_created_at = 7\<rparr>], id_seq = 2\<rparr>\<rparr>))
     \<lparr>rows = [], id_seq = 1\<rparr>
   = (Failure 500 (SQLAlchemyError ''connection lost''),
      \<lparr>server = \<lparr>rows = [], id_seq = 1\<rparr>, open_transaction = None, is_closed = True\<rparr>)"
proof -
  let ?pending = "\<lparr>rows = [\<lparr>task_id = 1, task_name = ''Buy milk'', task_description = None,
                         task_completed = False, task_created_at = 7\<rparr>], id_seq = 2\<rparr>"
  let ?handler = "\<lambda>db. (Inl (SQLAlchemyError ''connection lost'') :: exn + task,
        db\<lparr>open_transaction := Some ?pending\<rparr>)"
  let ?d = "\<lparr>rows = [], id_seq = 1\<rparr>"
  have raised: "?handler (SessionLocal ?d)
      = (Inl (SQLAlchemyError ''connection lost''),
         (SessionLocal ?d)\<lparr>open_transaction := Some ?pending\<rparr>)"
    by simp
  from raised
    storage_error_rolled_back_then_500 [of ?handler ?d "''connection lost''"
      "(SessionLocal ?d)\<lparr>open_transaction := Some ?pending\<rparr>" 201]
  have "fst (serve get_db 201 ?handler ?d) = Failure 500 (SQLAlchemyError ''connection lost'')"
    and "open_transaction (snd (serve get_db 201 ?handler ?d)) = None"
    and "is_closed (snd (serve get_db 201 ?handler ?d))"
    and "server (snd (serve get_db 201 ?handler ?d)) = ?d"
    and "fst (serve pg_get_db 201 ?handler ?d) = Failure 500 (SQLAlchemyError ''connection lost'')"
    and "open_transaction (snd (serve pg_get_db 201 ?handler ?d)) = None"
    and "is_closed (snd (serve pg_get_db 201 ?handler ?d))"
    and "server (snd (serve pg_get_db 201 ?handler ?d)) = ?d"
    by (simp_all add: SessionLocal_def)
  then show ?thesis
    by (simp add: prod_eq_iff session.equality)
qed

section \<open>Create\<close>

lemma query_first_appended:
  assumes "i \<notin> set (map task_id xs)" and "task_id r = i"
  shows "query_first i (db\<lparr>rows := xs @ [r]\<rparr>) = Some r"
  using assms by (induction xs) (auto simp: query_first_def)

lemma nul_in_Some: "nul_in (Some s) = has_nul s"
  by (simp add: nul_in_def)

text \<open>A create whose name or description holds NUL is refused before anything is stored.\<close>

lemma create_task_nul_refused:
  assumes "has_nul (name task) \<or> nul_in (description task)"
  shows "create_task task now db = (Inl nul_refused, db)"
  using assms by (auto simp: create_task_def Let_def nul_in_def)

text \<open>
  Claim C7, as the code has it. In the SQLAlchemy variants a body without \<^verbatim>\<open>name\<close> is
  refused with status 422 and the database is left as it was. A body with a name (the
  description omitted, null or given, \<^verbatim>\<open>completed\<close> omitted or given), whose name and
  description do not hold the NUL character, is stored with the next id of the sequence
  (an id no row has yet, within the range of the \<^verbatim>\<open>Integer\<close> column), the description (null
  when not given) and \<^verbatim>\<open>completed\<close> (false when omitted), and the row is returned with
  status 201. In the in-memory variant the input is \<^verbatim>\<open>name\<close> and \<^verbatim>\<open>task\<close>, both required,
  and an optional \<^verbatim>\<open>completed\<close>: a body without \<^verbatim>\<open>name\<close> or without \<^verbatim>\<open>task\<close> is refused with
  422 and nothing is stored, and a body with both is stored with \<^verbatim>\<open>completed\<close> false when
  omitted.
\<close>

theorem create_validates_then_stores:
  "(b_name body = Unset \<longrightarrow>
      (\<exists>fields. POST_tasks body now db = (Failure 422 (RequestValidationError fields), db)
         \<and> ''name'' \<in> set fields))
   \<and> (b_name body = Given n \<and> b_completed body \<noteq> Null
        \<and> \<not> has_nul n \<and> \<not> nul_in (optional (b_description body))
        \<and> in_Integer (id_seq db) \<and> id_seq db \<notin> set (map task_id (rows db)) \<longrightarrow>
      POST_tasks body now db
        = (Reply 201
             (Some \<lparr>task_id = id_seq db, task_name = n,
                    task_description = optional (b_description body),
                    task_completed = (case b_completed body of Given c \<Rightarrow> c | _ \<Rightarrow> False),
                    task_created_at = now\<rparr>),
           db\<lparr>rows := rows db @
                  [\<lparr>task_id = id_seq db, task_name = n,
                    task_description = optional (b_description body),
                    task_completed = (case b_completed body of Given c \<Rightarrow> c | _ \<Rightarrow> False),
                    task_created_at = now\<rparr>],
                id_seq := id_seq db + 1\<rparr>))
   \<and> (mb_name mbody = Unset \<or> mb_task mbody = Unset \<longrightarrow>
      (\<exists>fields. mem_POST_tasks mbody e store
         = (Failure 422 (RequestValidationError fields), store)))
   \<and> (mb_name mbody = Given n \<and> mb_task mbody = Given k \<and> mb_completed mbody \<noteq> Null \<longrightarrow>
      mem_POST_tasks mbody e store
        = (Reply 201
             (Some (Data [''name'' \<mapsto> VStr n, ''task'' \<mapsto> VStr k,
                ''completed'' \<mapsto> VBool (case mb_completed mbody of Given c \<Rightarrow> c | _ \<Rightarrow> False),
                ''id'' \<mapsto> VInt (randrange 3 10000 e)])),
           store @ [[''name'' \<mapsto> VStr n, ''task'' \<mapsto> VStr k,
                ''completed'' \<mapsto> VBool (case mb_completed mbody of Given c \<Rightarrow> c | _ \<Rightarrow> False),
                ''id'' \<mapsto> VInt (randrange 3 10000 e)]]))"
proof (intro conjI impI)
  assume "b_name body = Unset"
  then have "POST_tasks body now db
      = (Failure 422 (RequestValidationError
           (''name'' # invalid ''completed'' (with_default False (b_completed body)))), db)"
    by (simp add: POST_tasks_def TaskCreate_validate_def invalid_def split: option.split)
  then show "\<exists>fields. POST_tasks body now db = (Failure 422 (RequestValidationError fields), db)
         \<and> ''name'' \<in> set fields"
    by simp
next
  let ?c = "case b_completed body of Given c \<Rightarrow> c | _ \<Rightarrow> False"
  let ?r = "\<lparr>task_id = id_seq db, task_name = n,
             task_description = optional (b_description body),
             task_completed = ?c, task_created_at = now\<rparr>"
  assume a: "b_name body = Given n \<and> b_completed body \<noteq> Null
        \<and> \<not> has_nul n \<and> \<not> nul_in (optional (b_description body))
        \<and> in_Integer (id_seq db) \<and> id_seq db \<notin> set (map task_id (rows db))"
  then have valid: "TaskCreate_validate body
      = Inr \<lparr>name = n, description = optional (b_description body), completed = ?c\<rparr>"
    by (cases "b_completed body") (simp_all add: TaskCreate_validate_def)
  from a have reread:
    "query_first (id_seq db) (db\<lparr>id_seq := id_seq db + 1, rows := rows db @ [?r]\<rparr>) = Some ?r"
    using query_first_appended [of "id_seq db" "rows db" ?r "db\<lparr>id_seq := id_seq db + 1\<rparr>"]
    by simp
  from a have fresh: "id_seq db \<notin> task_id ` set (rows db)" by simp
  from a have sendable: "\<not> has_nul n" "\<not> nul_in (optional (b_description body))"
    "in_Integer (id_seq db)"
    by simp_all
  show "POST_tasks body now db
        = (Reply 201 (Some ?r), db\<lparr>rows := rows db @ [?r], id_seq := id_seq db + 1\<rparr>)"
    by (simp add: POST_tasks_def valid create_task_def Let_def row_of_def fresh reread
        respond_def sendable nul_in_Some)
next
  assume "mb_name mbody = Unset \<or> mb_task mbody = Unset"
  then have "\<exists>fields. mem_Task_validate mbody = Inl (RequestValidationError fields)"
    by (auto simp: mem_Task_validate_def split: option.split)
  then show "\<exists>fields. mem_POST_tasks mbody e store
         = (Failure 422 (RequestValidationError fields), store)"
    by (auto simp: mem_POST_tasks_def)
next
  let ?c = "case mb_completed mbody of Given c \<Rightarrow> c | _ \<Rightarrow> False"
  assume a: "mb_name mbody = Given n \<and> mb_task mbody = Given k \<and> mb_completed mbody \<noteq> Null"
  then have valid: "mem_Task_validate mbody
      = Inr \<lparr>mem_name = n, mem_task = k, mem_completed = ?c\<rparr>"
    by (cases "mb_completed mbody") (simp_all add: mem_Task_validate_def)
  show "mem_POST_tasks mbody e store
        = (Reply 201
             (Some (Data [''name'' \<mapsto> VStr n, ''task'' \<mapsto> VStr k,
                ''completed'' \<mapsto> VBool ?c, ''id'' \<mapsto> VInt (randrange 3 10000 e)])),
           store @ [[''name'' \<mapsto> VStr n, ''task'' \<mapsto> VStr k,
                ''completed'' \<mapsto> VBool ?c, ''id'' \<mapsto> VInt (randrange 3 10000 e)]])"
    by (simp add: mem_POST_tasks_def valid mem_create_task_def Let_def mem_Task_dict_def
        respond_def)
qed

text \<open>
  Claim C7 as stated fails in the in-memory variant: its create refuses the body
  \<^verbatim>\<open>{"name": "Buy milk"}\<close> with status 422, because \<^verbatim>\<open>task\<close> is required there, and stores
  nothing.
\<close>

theorem mem_create_only_name_rejected:
  "mem_POST_tasks \<lparr>mb_name = Given ''Buy milk'', mb_task = Unset, mb_completed = Unset\<rparr> 0
     my_tasks
   = (Failure 422 (RequestValidationError [''task'']), my_tasks)"
  by (simp add: mem_POST_tasks_def mem_Task_validate_def invalid_def)

theorem create_validates_then_stores_witness:
  "POST_tasks \<lparr>b_name = Unset, b_description = Given ''2 litres'', b_completed = Unset\<rparr> 7
      \<lparr>rows = [], id_seq = 1\<rparr>
     = (Failure 422 (RequestValidationError [''name'']), \<lparr>rows = [], id_seq = 1\<rparr>)
   \<and> POST_tasks \<lparr>b_name = Given ''Buy milk'', b_description = Unset, b_completed = Unset\<rparr> 7
      \<lparr>rows = [], id_seq = 1\<rparr>
     = (Reply 201 (Some \<lparr>task_id = 1, task_name = ''Buy milk'', task_description = None,
          task_completed = False, task_created_at = 7\<rparr>),
        \<lparr>rows = [\<lparr>task_id = 1, task_name = ''Buy milk'', task_description = None,
          task_completed = False, task_created_at = 7\<rparr>], id_seq = 2\<rparr>)
   \<and> fst (mem_POST_tasks \<lparr>mb_name = Unset, mb_task = Given ''x'', mb_completed = Unset\<rparr> 0
      my_tasks)
     = Failure 422 (RequestValidationError [''name''])
   \<and> map (\<lambda>t. (t ''id'', t ''name'', t ''task'', t ''completed''))
       (snd (mem_POST_tasks
          \<lparr>mb_name = Given ''Buy milk'', mb_task = Given ''2 litres'', mb_completed = Unset\<rparr> 0
          my_tasks))
     = [(Some (VInt 1), Some (VStr ''test1''), Some (VStr ''test1''), None),
        (Some (VInt 2), Some (VStr ''test2''), Some (VStr ''test2''), None),
        (Some (VInt 3), Some (VStr ''Buy milk''), Some (VStr ''2 litres''), Some (VBool False))]"
proof -
  have unset: "b_name \<lparr>b_name = Unset, b_description = Given ''2 litres'', b_completed = Unset\<rparr>
      = Unset"
    and given: "b_name \<lparr>b_name = Given ''Buy milk'', b_description = Unset, b_completed = Unset\<rparr>
      = Given ''Buy milk''
      \<and> b_completed \<lparr>b_name = Given ''Buy milk'', b_description = Unset, b_completed = Unset\<rparr>
        \<noteq> Null
      \<and> \<not> has_nul ''Buy milk''
      \<and> \<not> nul_in (optional (b_description
            \<lparr>b_name = Given ''Buy milk'', b_description = Unset, b_completed = Unset\<rparr>))
      \<and> in_Integer (id_seq \<lparr>rows = [], id_seq = 1\<rparr>)
      \<and> id_seq \<lparr>rows = [], id_seq = 1\<rparr> \<notin> set (map task_id (rows \<lparr>rows = [], id_seq = 1\<rparr>))"
    and mem_unset: "mb_name \<lparr>mb_name = Unset, mb_task = Given ''x'', mb_completed = Unset\<rparr> = Unset"
    and mem_given:
      "mb_name \<lparr>mb_name = Given ''Buy milk'', mb_task = Given ''2 litres'', mb_completed = Unset\<rparr>
        = Given ''Buy milk''
       \<and> mb_task \<lparr>mb_name = Given ''Buy milk'', mb_task = Given ''2 litres'', mb_completed = Unset\<rparr>
        = Given ''2 litres''
       \<and> mb_completed
          \<lparr>mb_name = Given ''Buy milk'', mb_task = Given ''2 litres'', mb_completed = Unset\<rparr>
        \<noteq> Null"
    by (simp_all add: has_nul_def nul_in_def in_Integer_def)
  from unset mem_unset
    create_validates_then_stores [of
      "\<lparr>b_name = Unset, b_description = Given ''2 litres'', b_completed = Unset\<rparr>"
      7 "\<lparr>rows = [], id_seq = 1\<rparr>" "''Buy milk''"
      "\<lparr>mb_name = Unset, mb_task = Given ''x'', mb_completed = Unset\<rparr>"
      0 my_tasks "''2 litres''"]
  have one: "POST_tasks \<lparr>b_name = Unset, b_description = Given ''2 litres'', b_completed = Unset\<rparr> 7
      \<lparr>rows = [], id_seq = 1\<rparr>
     = (Failure 422 (RequestValidationError [''name'']), \<lparr>rows = [], id_seq = 1\<rparr>)"
    and three: "fst (mem_POST_tasks \<lparr>mb_name = Unset, mb_task = Given ''x'', mb_completed = Unset\<rparr> 0
      my_tasks)
     = Failure 422 (RequestValidationError [''name''])"
    by (simp_all add: POST_tasks_def TaskCreate_validate_def mem_POST_tasks_def
        mem_Task_validate_def invalid_def)
  from given
    create_validates_then_stores [of
      "\<lparr>b_name = Given ''Buy milk'', b_description = Unset, b_completed = Unset\<rparr>"
      7 "\<lparr>rows = [], id_seq = 1\<rparr>" "''Buy milk''"
      "\<lparr>mb_name = Given ''Buy milk'', mb_task = Given ''2 litres'', mb_completed = Unset\<rparr>"
      0 my_tasks "''2 litres''"]
    mem_given
  have two: "POST_tasks \<lparr>b_name = Given ''Buy milk'', b_description = Unset, b_completed = Unset\<rparr> 7
      \<lparr>rows = [], id_seq = 1\<rparr>
     = (Reply 201 (Some \<lparr>task_id = 1, task_name = ''Buy milk'', task_description = None,
          task_completed = False, task_created_at = 7\<rparr>),
        \<lparr>rows = [\<lparr>task_id = 1, task_name = ''Buy milk'', task_description = None,
          task_completed = False, task_created_at = 7\<rparr>], id_seq = 2\<rparr>)"
    and four: "map (\<lambda>t. (t ''id'', t ''name'', t ''task'', t ''completed''))
       (snd (mem_POST_tasks
          \<lparr>mb_name = Given ''Buy milk'', mb_task = Given ''2 litres'', mb_completed = Unset\<rparr> 0
          my_tasks))
     = [(Some (VInt 1), Some (VStr ''test1''), Some (VStr ''test1''), None),
        (Some (VInt 2), Some (VStr ''test2''), Some (VStr ''test2''), None),
        (Some (VInt 3), Some (VStr ''Buy milk''), Some (VStr ''2 litres''), Some (VBool False))]"
    by (simp_all add: my_tasks_def randrange_def)
  from one two three four show ?thesis by simp
qed

section \<open>Update\<close>

lemma row_of_attrs_of: "row_of (task_id t) (task_created_at t) (attrs_of t) = Some t"
  by (simp add: row_of_def attrs_of_def)

lemma row_of_assigned:
  assumes "b_name u \<noteq> Null" and "b_completed u \<noteq> Null"
  shows "row_of (task_id t) (task_created_at t)
           (fold (\<lambda>kv a. setattr a kv) (dict_exclude_unset u) (attrs_of t))
         = Some (spec_merge u t)"
  using assms
  by (cases t; cases "b_name u"; cases "b_description u"; cases "b_completed u")
     (simp_all add: dict_exclude_unset_def attrs_of_def row_of_def spec_merge_def)

lemma row_of_null_refused:
  assumes "b_name u = Null \<or> b_completed u = Null"
  shows "row_of (task_id t) (task_created_at t)
           (fold (\<lambda>kv a. setattr a kv) (dict_exclude_unset u) (attrs_of t))
         = None"
  using assms
  by (cases "b_name u"; cases "b_description u"; cases "b_completed u")
     (auto simp: dict_exclude_unset_def attrs_of_def row_of_def)

lemma changed_strings_sendable:
  assumes "\<not> nul_in (optional (b_name u))" and "\<not> nul_in (optional (b_description u))"
  shows "\<not> list_ex nul_in
           (changed_strings (attrs_of t)
              (fold (\<lambda>kv a. setattr a kv) (dict_exclude_unset u) (attrs_of t)))"
  using assms
  by (cases "b_name u"; cases "b_description u"; cases "b_completed u")
     (simp_all add: dict_exclude_unset_def attrs_of_def changed_strings_def nul_in_def)

lemma query_first_moved:
  assumes "task_id r = i"
  shows "query_first i (db\<lparr>rows := filter (\<lambda>t. task_id t \<noteq> i) xs @ [r]\<rparr>) = Some r"
  using assms by (induction xs) (auto simp: query_first_def)

lemma filter_own_id:
  assumes "distinct (map f xs)" and "t \<in> set xs"
  shows "filter (\<lambda>r. f r = f t) xs = [t]"
  using assms
proof (induction xs)
  case Nil
  then show ?case by simp
next
  case (Cons x xs)
  show ?case
  proof (cases "x = t")
    case True
    with Cons.prems have "f t \<notin> f ` set xs"
      by simp
    then have "\<forall>r \<in> set xs. f r \<noteq> f t"
      by (metis imageI)
    then have "filter (\<lambda>r. f r = f t) xs = []"
      by (simp add: filter_empty_conv)
    with True show ?thesis by simp
  next
    case False
    with Cons.prems have "t \<in> set xs" and "f x \<noteq> f t" and "distinct (map f xs)"
      by auto
    with Cons.IH show ?thesis by simp
  qed
qed

text \<open>
  What an update on a stored task does, by cases: nothing is written when no attribute
  changes, and otherwise the new version of the row is written after the other rows.
\<close>

lemma update_task_unchanged:
  assumes "query_first i db = Some t"
    and "fold (\<lambda>kv a. setattr a kv) (dict_exclude_unset u) (attrs_of t) = attrs_of t"
  shows "update_task i u db = (Inr t, db)"
proof -
  from assms(1) have "task_id t = i"
    by (simp add: query_first_SomeD)
  with assms show ?thesis
    by (simp add: update_task_def Let_def)
qed

lemma update_task_written:
  assumes "query_first i db = Some t"
    and "fold (\<lambda>kv a. setattr a kv) (dict_exclude_unset u) (attrs_of t) \<noteq> attrs_of t"
    and "b_name u \<noteq> Null" and "b_completed u \<noteq> Null"
    and "\<not> nul_in (optional (b_name u))" and "\<not> nul_in (optional (b_description u))"
  shows "update_task i u db
      = (Inr (spec_merge u t),
         db\<lparr>rows := filter (\<lambda>r. task_id r \<noteq> i) (rows db) @ [spec_merge u t]\<rparr>)"
proof -
  from assms(1) have i: "task_id t = i"
    by (simp add: query_first_SomeD)
  have same_id: "task_id (spec_merge u t) = i"
    using i by (simp add: spec_merge_def)
  from assms(3,4) have written: "row_of i (task_created_at t)
           (fold (\<lambda>kv a. setattr a kv) (dict_exclude_unset u) (attrs_of t))
         = Some (spec_merge u t)"
    using row_of_assigned [of u t] i by simp
  from assms(5,6) have sendable: "\<not> list_ex nul_in
           (changed_strings (attrs_of t)
              (fold (\<lambda>kv a. setattr a kv) (dict_exclude_unset u) (attrs_of t)))"
    by (rule changed_strings_sendable)
  have reread: "query_first i
      (db\<lparr>rows := filter (\<lambda>r. task_id r \<noteq> i) (rows db) @ [spec_merge u t]\<rparr>)
      = Some (spec_merge u t)"
    using same_id by (rule query_first_moved)
  show ?thesis
    using assms(1,2) i
    by (simp add: update_task_def Let_def written sendable reread)
qed

text \<open>
  An update that sets \<^verbatim>\<open>name\<close> or \<^verbatim>\<open>completed\<close> to null is refused and leaves the table as
  it was.
\<close>

lemma update_task_null_refused:
  assumes "query_first i db = Some t" and "b_name u = Null \<or> b_completed u = Null"
  shows "\<exists>e. update_task i u db = (Inl e, db)"
proof -
  from assms(1) have i: "task_id t = i"
    by (simp add: query_first_SomeD)
  let ?attrs = "fold (\<lambda>kv a. setattr a kv) (dict_exclude_unset u) (attrs_of t)"
  from assms(2) have none: "row_of i (task_created_at t) ?attrs = None"
    using row_of_null_refused [of u t] i by simp
  have "?attrs \<noteq> attrs_of t"
  proof
    assume "?attrs = attrs_of t"
    with none have "row_of i (task_created_at t) (attrs_of t) = None" by simp
    with row_of_attrs_of [of t] i show False by simp
  qed
  with assms(1) i none show ?thesis
    by (simp add: update_task_def Let_def)
qed

text \<open>
  Claim C1, as the code has it. In the SQLAlchemy variants, on a table whose ids are distinct
  (the primary key keeps them so), an update of a stored task whose input does not set
  \<^verbatim>\<open>name\<close> or \<^verbatim>\<open>completed\<close> to null and gives no name or description that holds the NUL
  character applies the fields present in the input and keeps the omitted ones
  (\<open>spec_merge\<close>), leaves \<^verbatim>\<open>id\<close> and \<^verbatim>\<open>created_at\<close> as they were, and returns the result with
  status 200; the table then holds the result as its one row with that id, and its other
  rows as they were, in their order. In the in-memory variant the input is a whole task
  (\<^verbatim>\<open>name\<close> and \<^verbatim>\<open>task\<close> required): the update replaces the first record with the id by the
  input, \<^verbatim>\<open>completed\<close> being false when omitted, keeps the id and returns the new record
  with status 200.
\<close>

theorem update_task_merges:
  "(distinct (map task_id (rows db)) \<and> t \<in> set (rows db)
      \<and> b_name u \<noteq> Null \<and> b_completed u \<noteq> Null
      \<and> \<not> nul_in (optional (b_name u)) \<and> \<not> nul_in (optional (b_description u)) \<longrightarrow>
      fst (PUT_task (task_id t) u db) = Reply 200 (Some (spec_merge u t))
      \<and> filter (\<lambda>r. task_id r = task_id t) (rows (snd (PUT_task (task_id t) u db)))
        = [spec_merge u t]
      \<and> filter (\<lambda>r. task_id r \<noteq> task_id t) (rows (snd (PUT_task (task_id t) u db)))
        = filter (\<lambda>r. task_id r \<noteq> task_id t) (rows db)
      \<and> id_seq (snd (PUT_task (task_id t) u db)) = id_seq db
      \<and> task_id (spec_merge u t) = task_id t
      \<and> task_created_at (spec_merge u t) = task_created_at t)
   \<and> (Some (VInt i) \<in> set (map (\<lambda>t. t ''id'') store)
      \<and> mb_name body = Given n \<and> mb_task body = Given k \<and> mb_completed body \<noteq> Null \<longrightarrow>
      (\<exists>index. index < length store \<and> (store ! index) ''id'' = Some (VInt i)
         \<and> mem_PUT_task i body store
           = (Reply 200
                (Some (Data [''name'' \<mapsto> VStr n, ''task'' \<mapsto> VStr k,
                   ''completed'' \<mapsto> VBool (case mb_completed body of Given c \<Rightarrow> c | _ \<Rightarrow> False),
                   ''id'' \<mapsto> VInt i])),
              store[index := [''name'' \<mapsto> VStr n, ''task'' \<mapsto> VStr k,
                   ''completed'' \<mapsto> VBool (case mb_completed body of Given c \<Rightarrow> c | _ \<Rightarrow> False),
                   ''id'' \<mapsto> VInt i]])))"
proof (intro conjI impI)
  assume a: "distinct (map task_id (rows db)) \<and> t \<in> set (rows db)
      \<and> b_name u \<noteq> Null \<and> b_completed u \<noteq> Null
      \<and> \<not> nul_in (optional (b_name u)) \<and> \<not> nul_in (optional (b_description u))"
  let ?t' = "spec_merge u t"
  let ?attrs = "fold (\<lambda>kv a. setattr a kv) (dict_exclude_unset u) (attrs_of t)"
  from a have found: "query_first (task_id t) db = Some t"
    by (simp add: query_first_unique)
  from a have written: "row_of (task_id t) (task_created_at t) ?attrs = Some ?t'"
    by (simp add: row_of_assigned)
  have same_id: "task_id ?t' = task_id t"
    by (simp add: spec_merge_def)
  from a have own: "filter (\<lambda>r. task_id r = task_id t) (rows db) = [t]"
    by (simp add: filter_own_id)
  have result: "fst (PUT_task (task_id t) u db) = Reply 200 (Some ?t')
      \<and> filter (\<lambda>r. task_id r = task_id t) (rows (snd (PUT_task (task_id t) u db))) = [?t']
      \<and> filter (\<lambda>r. task_id r \<noteq> task_id t) (rows (snd (PUT_task (task_id t) u db)))
        = filter (\<lambda>r. task_id r \<noteq> task_id t) (rows db)
      \<and> id_seq (snd (PUT_task (task_id t) u db)) = id_seq db"
  proof (cases "?attrs = attrs_of t")
    case True
    with written row_of_attrs_of [of t] have "?t' = t" by simp
    moreover from found True have "update_task (task_id t) u db = (Inr t, db)"
      by (rule update_task_unchanged)
    ultimately show ?thesis
      using own by (simp add: PUT_task_def respond_def)
  next
    case False
    with found a have "update_task (task_id t) u db
        = (Inr ?t', db\<lparr>rows := filter (\<lambda>r. task_id r \<noteq> task_id t) (rows db) @ [?t']\<rparr>)"
      by (simp add: update_task_written)
    then show ?thesis
      using same_id by (simp add: PUT_task_def respond_def)
  qed
  from result show "fst (PUT_task (task_id t) u db) = Reply 200 (Some ?t')"
    by simp
  from result
  show "filter (\<lambda>r. task_id r = task_id t) (rows (snd (PUT_task (task_id t) u db))) = [?t']"
    by simp
  from result
  show "filter (\<lambda>r. task_id r \<noteq> task_id t) (rows (snd (PUT_task (task_id t) u db)))
        = filter (\<lambda>r. task_id r \<noteq> task_id t) (rows db)"
    by simp
  from result show "id_seq (snd (PUT_task (task_id t) u db)) = id_seq db"
    by simp
next
  show "task_id (spec_merge u t) = task_id t"
    by (simp add: spec_merge_def)
next
  show "task_created_at (spec_merge u t) = task_created_at t"
    by (simp add: spec_merge_def)
next
  let ?c = "case mb_completed body of Given c \<Rightarrow> c | _ \<Rightarrow> False"
  let ?d = "[''name'' \<mapsto> VStr n, ''task'' \<mapsto> VStr k, ''completed'' \<mapsto> VBool ?c,
             ''id'' \<mapsto> VInt i]"
  assume a: "Some (VInt i) \<in> set (map (\<lambda>t. t ''id'') store)
      \<and> mb_name body = Given n \<and> mb_task body = Given k \<and> mb_completed body \<noteq> Null"
  then obtain index where found: "find_post_index i store = Some index"
    and index: "index < length store" "(store ! index) ''id'' = Some (VInt i)"
    using find_post_index_present [of i store] by blast
  from a have valid: "mem_Task_validate body
      = Inr \<lparr>mem_name = n, mem_task = k, mem_completed = ?c\<rparr>"
    by (cases "mb_completed body") (simp_all add: mem_Task_validate_def)
  have "mem_PUT_task i body store = (Reply 200 (Some (Data ?d)), store[index := ?d])"
    by (simp add: mem_PUT_task_def valid mem_update_task_def found Let_def mem_Task_dict_def
        respond_def)
  with index
  show "\<exists>index. index < length store \<and> (store ! index) ''id'' = Some (VInt i)
         \<and> mem_PUT_task i body store = (Reply 200 (Some (Data ?d)), store[index := ?d])"
    by blast
qed

text \<open>
  Claim C1 as stated fails in the in-memory variant: a task created with \<^verbatim>\<open>completed\<close> true
  and then updated with a body that omits \<^verbatim>\<open>completed\<close> is stored with \<^verbatim>\<open>completed\<close> false.
\<close>

theorem mem_update_task_resets_completed:
  "map (\<lambda>t. (t ''id'', t ''completed''))
     (snd (mem_POST_tasks
        \<lparr>mb_name = Given ''a'', mb_task = Given ''x'', mb_completed = Given True\<rparr> 0 my_tasks))
   = [(Some (VInt 1), None), (Some (VInt 2), None), (Some (VInt 3), Some (VBool True))]
   \<and> map (\<lambda>t. (t ''id'', t ''completed''))
     (snd (mem_PUT_task 3 \<lparr>mb_name = Given ''a'', mb_task = Given ''x'', mb_completed = Unset\<rparr>
        (snd (mem_POST_tasks
           \<lparr>mb_name = Given ''a'', mb_task = Given ''x'', mb_completed = Given True\<rparr> 0
           my_tasks))))
   = [(Some (VInt 1), None), (Some (VInt 2), None), (Some (VInt 3), Some (VBool False))]"
  by (simp add: mem_POST_tasks_def mem_PUT_task_def mem_Task_validate_def mem_create_task_def
      mem_update_task_def mem_Task_dict_def find_post_index_def my_tasks_def randrange_def
      respond_def Let_def)

theorem update_task_merges_witness:
  "fst (PUT_task 1 \<lparr>b_name = Unset, b_description = Unset, b_completed = Given True\<rparr>
      \<lparr>rows = [\<lparr>task_id = 1, task_name = ''Buy milk'', task_description = None,
                 task_completed = False, task_created_at = 7\<rparr>,
               \<lparr>task_id = 2, task_name = ''Walk'', task_description = Some ''dog'',
                 task_completed = False, task_created_at = 8\<rparr>], id_seq = 3\<rparr>)
     = Reply 200 (Some \<lparr>task_id = 1, task_name = ''Buy milk'', task_description = None,
          task_completed = True, task_created_at = 7\<rparr>)
   \<and> filter (\<lambda>r. task_id r = 1)
       (rows (snd (PUT_task 1 \<lparr>b_name = Unset, b_description = Unset, b_completed = Given True\<rparr>
          \<lparr>rows = [\<lparr>task_id = 1, task_name = ''Buy milk'', task_description = None,
                 task_completed = False, task_created_at = 7\<rparr>,
               \<lparr>task_id = 2, task_name = ''Walk'', task_description = Some ''dog'',
                 task_completed = False, task_created_at = 8\<rparr>], id_seq = 3\<rparr>)))
     = [\<lparr>task_id = 1, task_name = ''Buy milk'', task_description = None,
          task_completed = True, task_created_at = 7\<rparr>]
   \<and> filter (\<lambda>r. task_id r \<noteq> 1)
       (rows (snd (PUT_task 1 \<lparr>b_name = Unset, b_description = Unset, b_completed = Given True\<rparr>
          \<lparr>rows = [\<lparr>task_id = 1, task_name = ''Buy milk'', task_description = None,
                 task_completed = False, task_created_at = 7\<rparr>,
               \<lparr>task_id = 2, task_name = ''Walk'', task_description = Some ''dog'',
                 task_completed = False, task_created_at = 8\<rparr>], id_seq = 3\<rparr>)))
     = [\<lparr>task_id = 2, task_name = ''Walk'', task_description = Some ''dog'',
                 task_completed = False, task_created_at = 8\<rparr>]
   \<and> map (\<lambda>t. (t ''id'', t ''name'', t ''task'', t ''completed''))
       (snd (mem_PUT_task 2
          \<lparr>mb_name = Given ''n'', mb_task = Given ''k'', mb_completed = Unset\<rparr> my_tasks))
     = [(Some (VInt 1), Some (VStr ''test1''), Some (VStr ''test1''), None),
        (Some (VInt 2), Some (VStr ''n''), Some (VStr ''k''), Some (VBool False))]"
proof -
  let ?t = "\<lparr>task_id = 1, task_name = ''Buy milk'', task_description = None,
          task_completed = False, task_created_at = 7\<rparr>"
  let ?w = "\<lparr>task_id = 2, task_name = ''Walk'', task_description = Some ''dog'',
                 task_completed = False, task_created_at = 8\<rparr>"
  let ?db = "\<lparr>rows = [?t, ?w], id_seq = 3\<rparr>"
  let ?u = "\<lparr>b_name = Unset, b_description = Unset, b_completed = Given True\<rparr>"
  let ?body = "\<lparr>mb_name = Given ''n'', mb_task = Given ''k'', mb_completed = Unset\<rparr>"
  have rel: "distinct (map task_id (rows ?db)) \<and> ?t \<in> set (rows ?db)
      \<and> b_name ?u \<noteq> Null \<and> b_completed ?u \<noteq> Null
      \<and> \<not> nul_in (optional (b_name ?u)) \<and> \<not> nul_in (optional (b_description ?u))"
    by (simp add: nul_in_def)
  have mem: "Some (VInt 2) \<in> set (map (\<lambda>t. t ''id'') my_tasks)
      \<and> mb_name ?body = Given ''n'' \<and> mb_task ?body = Given ''k'' \<and> mb_completed ?body \<noteq> Null"
    by (simp add: my_tasks_def)
  have merged: "spec_merge ?u ?t = \<lparr>task_id = 1, task_name = ''Buy milk'',
      task_description = None, task_completed = True, task_created_at = 7\<rparr>"
    by (simp add: spec_merge_def)
  from rel mem update_task_merges [of ?db ?t ?u 2 my_tasks ?body "''n''" "''k''"]
  have put: "fst (PUT_task 1 ?u ?db) = Reply 200 (Some (spec_merge ?u ?t))"
    and own: "filter (\<lambda>r. task_id r = 1) (rows (snd (PUT_task 1 ?u ?db))) = [spec_merge ?u ?t]"
    and others: "filter (\<lambda>r. task_id r \<noteq> 1) (rows (snd (PUT_task 1 ?u ?db)))
        = filter (\<lambda>r. task_id r \<noteq> 1) (rows ?db)"
    and "\<exists>index. index < length my_tasks \<and> (my_tasks ! index) ''id'' = Some (VInt 2)
         \<and> mem_PUT_task 2 ?body my_tasks
           = (Reply 200
                (Some (Data [''name'' \<mapsto> VStr ''n'', ''task'' \<mapsto> VStr ''k'',
                   ''completed'' \<mapsto> VBool False, ''id'' \<mapsto> VInt 2])),
              my_tasks[index := [''name'' \<mapsto> VStr ''n'', ''task'' \<mapsto> VStr ''k'',
                   ''completed'' \<mapsto> VBool False, ''id'' \<mapsto> VInt 2]])"
    by simp_all
  then obtain index where index: "index < length my_tasks"
    "(my_tasks ! index) ''id'' = Some (VInt 2)"
    and stored: "snd (mem_PUT_task 2 ?body my_tasks)
      = my_tasks[index := [''name'' \<mapsto> VStr ''n'', ''task'' \<mapsto> VStr ''k'',
                   ''completed'' \<mapsto> VBool False, ''id'' \<mapsto> VInt 2]]"
    by auto
  from index have "index = 1"
    by (cases index) (simp_all add: my_tasks_def)
  with stored have "map (\<lambda>t. (t ''id'', t ''name'', t ''task'', t ''completed''))
       (snd (mem_PUT_task 2 ?body my_tasks))
     = [(Some (VInt 1), Some (VStr ''test1''), Some (VStr ''test1''), None),
        (Some (VInt 2), Some (VStr ''n''), Some (VStr ''k''), Some (VBool False))]"
    by (simp add: my_tasks_def)
  moreover from others have "filter (\<lambda>r. task_id r \<noteq> 1) (rows (snd (PUT_task 1 ?u ?db))) = [?w]"
    by simp
  ultimately show ?thesis
    using put own merged by simp
qed

section \<open>List\<close>

lemma like_percent_only: "like ''%'' s"
  by (induction s) simp_all

lemma like_percent_suffix:
  "like (CHR ''%'' # ps) s \<longleftrightarrow> (\<exists>t. suffix t s \<and> like ps t)"
proof (induction s)
  case Nil
  show ?case by simp
next
  case (Cons c cs)
  have "like (CHR ''%'' # ps) (c # cs) \<longleftrightarrow> like ps (c # cs) \<or> like (CHR ''%'' # ps) cs"
    by simp
  also have "\<dots> \<longleftrightarrow> like ps (c # cs) \<or> (\<exists>t. suffix t cs \<and> like ps t)"
    by (simp only: Cons.IH)
  also have "\<dots> \<longleftrightarrow> (\<exists>t. suffix t (c # cs) \<and> like ps t)"
    by (auto simp: suffix_Cons)
  finally show ?case .
qed

lemma like_literal_prefix:
  assumes "CHR ''%'' \<notin> set p" and "CHR ''_'' \<notin> set p" and "CHR 0x5C \<notin> set p"
  shows "like (p @ q) s \<longleftrightarrow> (\<exists>t. s = p @ t \<and> like q t)"
  using assms
proof (induction p arbitrary: s)
  case Nil
  show ?case by simp
next
  case (Cons c p)
  then have c: "c \<noteq> CHR ''%''" "c \<noteq> CHR ''_''" "c \<noteq> CHR 0x5C"
    and IH: "\<And>s. like (p @ q) s \<longleftrightarrow> (\<exists>t. s = p @ t \<and> like q t)"
    by auto
  show ?case
  proof (cases s)
    case Nil
    with c show ?thesis by simp
  next
    case (Cons d ds)
    with c have "like ((c # p) @ q) s \<longleftrightarrow> d = c \<and> like (p @ q) ds"
      by simp
    also have "\<dots> \<longleftrightarrow> d = c \<and> (\<exists>t. ds = p @ t \<and> like q t)"
      by (simp only: IH)
    also have "\<dots> \<longleftrightarrow> (\<exists>t. s = (c # p) @ t \<and> like q t)"
      using Cons by auto
    finally show ?thesis .
  qed
qed

lemma contains_literal:
  assumes "CHR ''%'' \<notin> set search" and "CHR ''_'' \<notin> set search" and "CHR 0x5C \<notin> set search"
  shows "contains col search \<longleftrightarrow> sublist search col"
proof -
  have "''%'' @ search @ ''%'' = CHR ''%'' # (search @ ''%'')"
    by simp
  then have "contains col search \<longleftrightarrow> (\<exists>t. suffix t col \<and> like (search @ ''%'') t)"
    by (simp only: contains_def like_percent_suffix)
  also have "\<dots> \<longleftrightarrow> (\<exists>t. suffix t col \<and> (\<exists>r. t = search @ r \<and> like ''%'' r))"
    by (simp only: like_literal_prefix [OF assms])
  also have "\<dots> \<longleftrightarrow> (\<exists>t. suffix t col \<and> (\<exists>r. t = search @ r))"
    by (simp only: like_percent_only simp_thms)
  also have "\<dots> \<longleftrightarrow> (\<exists>t. suffix t col \<and> prefix search t)"
    by (simp only: prefix_def)
  also have "\<dots> \<longleftrightarrow> sublist search col"
    by (simp only: sublist_altdef')
  finally show ?thesis .
qed

text \<open>
  Claim C3, as the code has it. In the SQLAlchemy variants, for a search term without the
  \<^verbatim>\<open>LIKE\<close> characters (percent, underscore, backslash) and without the NUL character, and a
  limit and a skip from 0 to the largest 64-bit integer, the list operation answers 200
  with exactly the tasks whose name has the search term as a substring, in storage order,
  the first \<open>skip\<close> of them dropped and at most \<open>limit\<close> of the rest returned; the empty
  search returns all rows under limit and skip, and a search no name contains returns the
  empty list. The list operation of the in-memory variant takes no arguments and answers
  200 with every stored task.
\<close>

theorem get_tasks_filters_then_pages:
  "(in_page limit \<and> in_page skip \<and> \<not> has_nul search
      \<and> CHR ''%'' \<notin> set search \<and> CHR ''_'' \<notin> set search \<and> CHR 0x5C \<notin> set search \<longrightarrow>
      GET_tasks limit skip search db
        = (Reply 200
             (Some (take (nat limit)
                (drop (nat skip) (filter (\<lambda>t. sublist search (task_name t)) (rows db))))),
           db))
   \<and> (in_page limit \<and> in_page skip \<longrightarrow>
      GET_tasks limit skip '''' db
        = (Reply 200 (Some (take (nat limit) (drop (nat skip) (rows db)))), db))
   \<and> (in_page limit \<and> in_page skip \<and> \<not> has_nul search
      \<and> CHR ''%'' \<notin> set search \<and> CHR ''_'' \<notin> set search \<and> CHR 0x5C \<notin> set search
      \<and> (\<forall>t \<in> set (rows db). \<not> sublist search (task_name t)) \<longrightarrow>
      GET_tasks limit skip search db = (Reply 200 (Some []), db))
   \<and> mem_GET_tasks store = (Reply 200 (Some (Data store)), store)"
proof -
  have general: "GET_tasks limit skip s db
        = (Reply 200
             (Some (take (nat limit)
                (drop (nat skip) (filter (\<lambda>t. sublist s (task_name t)) (rows db))))),
           db)"
    if "in_page limit" and "in_page skip" and "\<not> has_nul s"
      and "CHR ''%'' \<notin> set s" and "CHR ''_'' \<notin> set s" and "CHR 0x5C \<notin> set s" for s
  proof -
    from that have "contains col s \<longleftrightarrow> sublist s col" for col
      by (simp add: contains_literal)
    with that show ?thesis
      by (simp add: GET_tasks_def get_tasks_def respond_def)
  qed
  have all: "GET_tasks limit skip '''' db
        = (Reply 200 (Some (take (nat limit) (drop (nat skip) (rows db)))), db)"
    if "in_page limit" and "in_page skip"
    using general [of "''''"] that by (simp add: has_nul_def)
  have no_match: "GET_tasks limit skip search db = (Reply 200 (Some []), db)"
    if "in_page limit" and "in_page skip" and "\<not> has_nul search"
      and "CHR ''%'' \<notin> set search" and "CHR ''_'' \<notin> set search" and "CHR 0x5C \<notin> set search"
      and "\<forall>t \<in> set (rows db). \<not> sublist search (task_name t)"
  proof -
    from that(7) have "filter (\<lambda>t. sublist search (task_name t)) (rows db) = []"
      by (simp add: filter_empty_conv)
    with general [of search] that show ?thesis by simp
  qed
  have mem: "mem_GET_tasks store = (Reply 200 (Some (Data store)), store)"
    by (simp add: mem_GET_tasks_def mem_get_tasks_def respond_def)
  from general [of search] all no_match mem show ?thesis
    by blast
qed

text \<open>
  Claim C3 as stated fails: the search \<^verbatim>\<open>_\<close> returns the task named \<^verbatim>\<open>x\<close>, whose name does
  not contain it; a negative limit, a limit past the largest 64-bit integer and a search
  that holds NUL are answered with a server error; and the in-memory list returns both
  seeded tasks whatever limit or search the request carries.
\<close>

theorem get_tasks_not_substring_search:
  "GET_tasks 10 0 ''_''
      \<lparr>rows = [\<lparr>task_id = 1, task_name = ''x'', task_description = None,
          task_completed = False, task_created_at = 0\<rparr>], id_seq = 2\<rparr>
     = (Reply 200 (Some [\<lparr>task_id = 1, task_name = ''x'', task_description = None,
          task_completed = False, task_created_at = 0\<rparr>]),
        \<lparr>rows = [\<lparr>task_id = 1, task_name = ''x'', task_description = None,
          task_completed = False, task_created_at = 0\<rparr>], id_seq = 2\<rparr>)
   \<and> \<not> sublist ''_'' ''x''
   \<and> fst (GET_tasks (- 1) 0 ''''
      \<lparr>rows = [\<lparr>task_id = 1, task_name = ''x'', task_description = None,
          task_completed = False, task_created_at = 0\<rparr>], id_seq = 2\<rparr>)
     = Failure 500 (SQLAlchemyError ''DataError'')
   \<and> fst (GET_tasks 9223372036854775808 0 ''''
      \<lparr>rows = [\<lparr>task_id = 1, task_name = ''x'', task_description = None,
          task_completed = False, task_created_at = 0\<rparr>], id_seq = 2\<rparr>)
     = Failure 500 (SQLAlchemyError ''DataError'')
   \<and> fst (GET_tasks 10 0 [CHR ''x'', CHR 0x00]
      \<lparr>rows = [\<lparr>task_id = 1, task_name = ''x'', task_description = None,
          task_completed = False, task_created_at = 0\<rparr>], id_seq = 2\<rparr>)
     = Failure 500 nul_refused
   \<and> mem_GET_tasks my_tasks = (Reply 200 (Some (Data my_tasks)), my_tasks)
   \<and> length my_tasks = 2"
  by (simp add: GET_tasks_def get_tasks_def contains_def respond_def sublist_code
      mem_GET_tasks_def mem_get_tasks_def has_nul_def in_page_def nul_refused_def)
     (simp add: my_tasks_def)

theorem get_tasks_filters_then_pages_witness:
  "GET_tasks 1 1 ''a''
      \<lparr>rows = [\<lparr>task_id = 1, task_name = ''abc'', task_description = None,
                 task_completed = False, task_created_at = 0\<rparr>,
               \<lparr>task_id = 2, task_name = ''bread'', task_description = None,
                 task_completed = False, task_created_at = 0\<rparr>,
               \<lparr>task_id = 3, task_name = ''xyz'', task_description = None,
                 task_completed = True, task_created_at = 0\<rparr>], id_seq = 4\<rparr>
     = (Reply 200 (Some [\<lparr>task_id = 2, task_name = ''bread'', task_description = None,
                 task_completed = False, task_created_at = 0\<rparr>]),
        \<lparr>rows = [\<lparr>task_id = 1, task_name = ''abc'', task_description = None,
                 task_completed = False, task_created_at = 0\<rparr>,
               \<lparr>task_id = 2, task_name = ''bread'', task_description = None,
                 task_completed = False, task_created_at = 0\<rparr>,
               \<lparr>task_id = 3, task_name = ''xyz'', task_description = None,
                 task_completed = True, task_created_at = 0\<rparr>], id_seq = 4\<rparr>)
   \<and> fst (GET_tasks 2 1 ''''
      \<lparr>rows = [\<lparr>task_id = 1, task_name = ''abc'', task_description = None,
                 task_completed = False, task_created_at = 0\<rparr>,
               \<lparr>task_id = 2, task_name = ''bread'', task_description = None,
                 task_completed = False, task_created_at = 0\<rparr>,
               \<lparr>task_id = 3, task_name = ''xyz'', task_description = None,
                 task_completed = True, task_created_at = 0\<rparr>], id_seq = 4\<rparr>)
     = Reply 200 (Some [\<lparr>task_id = 2, task_name = ''bread'', task_description = None,
                 task_completed = False, task_created_at = 0\<rparr>,
               \<lparr>task_id = 3, task_name = ''xyz'', task_description = None,
                 task_completed = True, task_created_at = 0\<rparr>])
   \<and> fst (GET_tasks 10 0 ''zzz''
      \<lparr>rows = [\<lparr>task_id = 1, task_name = ''abc'', task_description = None,
                 task_completed = False, task_created_at = 0\<rparr>,
               \<lparr>task_id = 2, task_name = ''bread'', task_description = None,
                 task_completed = False, task_created_at = 0\<rparr>,
               \<lparr>task_id = 3, task_name = ''xyz'', task_description = None,
                 task_completed = True, task_created_at = 0\<rparr>], id_seq = 4\<rparr>)
     = Reply 200 (Some [])
   \<and> fst (mem_GET_tasks my_tasks) = Reply 200 (Some (Data my_tasks))"
proof -
  let ?db = "\<lparr>rows = [\<lparr>task_id = 1, task_name = ''abc'', task_description = None,
                 task_completed = False, task_created_at = 0\<rparr>,
               \<lparr>task_id = 2, task_name = ''bread'', task_description = None,
                 task_completed = False, task_created_at = 0\<rparr>,
               \<lparr>task_id = 3, task_name = ''xyz'', task_description = None,
                 task_completed = True, task_created_at = 0\<rparr>], id_seq = 4\<rparr>"
  have literal_a: "in_page 1 \<and> in_page 1 \<and> \<not> has_nul ''a''
      \<and> CHR ''%'' \<notin> set ''a'' \<and> CHR ''_'' \<notin> set ''a'' \<and> CHR 0x5C \<notin> set ''a''"
    by (simp add: in_page_def has_nul_def)
  have paging: "in_page 2 \<and> in_page 1"
    by (simp add: in_page_def)
  have no_name: "in_page 10 \<and> in_page 0 \<and> \<not> has_nul ''zzz''
      \<and> CHR ''%'' \<notin> set ''zzz'' \<and> CHR ''_'' \<notin> set ''zzz'' \<and> CHR 0x5C \<notin> set ''zzz''
      \<and> (\<forall>t \<in> set (rows ?db). \<not> sublist ''zzz'' (task_name t))"
    by (simp add: sublist_code in_page_def has_nul_def)
  from literal_a get_tasks_filters_then_pages [of 1 1 "''a''" ?db my_tasks]
  have first: "GET_tasks 1 1 ''a'' ?db
      = (Reply 200 (Some [\<lparr>task_id = 2, task_name = ''bread'', task_description = None,
                 task_completed = False, task_created_at = 0\<rparr>]), ?db)"
    and listed: "fst (mem_GET_tasks my_tasks) = Reply 200 (Some (Data my_tasks))"
    by (simp_all add: sublist_code)
  from paging get_tasks_filters_then_pages [of 2 1 "''a''" ?db my_tasks]
  have second: "fst (GET_tasks 2 1 '''' ?db)
      = Reply 200 (Some [\<lparr>task_id = 2, task_name = ''bread'', task_description = None,
                 task_completed = False, task_created_at = 0\<rparr>,
               \<lparr>task_id = 3, task_name = ''xyz'', task_description = None,
                 task_completed = True, task_created_at = 0\<rparr>])"
    by simp
  from no_name get_tasks_filters_then_pages [of 10 0 "''zzz''" ?db my_tasks]
  have third: "fst (GET_tasks 10 0 ''zzz'' ?db) = Reply 200 (Some [])"
    by simp
  from first second third listed show ?thesis
    by simp
qed

end
